theory Spec2Isabelle
  imports Main "HOL-Library.Sublist" "HOL-Library.AList"
begin

section \<open>Data model of lxd/container.go\<close>

text \<open>
  The errors that come from outside this file: \<open>ErrNoSuchObject\<close> and
  \<open>ErrAlreadyDefined\<close> are the two sentinel errors of package db that the code
  compares against, \<open>ErrOther\<close> is any other error handed back by a collaborator.
\<close>

datatype ext_error =
    ErrNoSuchObject
  | ErrAlreadyDefined
  | ErrOther string

text \<open>
  Go's \<open>error\<close> values as container.go returns them.  \<open>Ext\<close> is a collaborator's
  error passed on unchanged; every \<open>fmt.Errorf\<close> of container.go is one constructor
  (the message is given beside it); \<open>ErrPanic\<close> is a run-time panic (index out
  of range).
\<close>

datatype error =
    Ext ext_error
  | ErrPanic
  | ErrSnapshotDelimiter          \<comment> \<open>The character '/' is reserved for snapshots.\<close>
  | ErrInvalidHostname            \<comment> \<open>Container name isn't a valid hostname.\<close>
  | ErrBlacklistCompatArch        \<comment> \<open>security.syscalls.blacklist_compat isn't supported on this architecture\<close>
  | ErrMapRoot                    \<comment> \<open>Cannot map root user into container as LXD was configured to only allow unprivileged containers\<close>
  | ErrVolatileKeys               \<comment> \<open>Volatile keys can only be set on containers.\<close>
  | ErrImageKeys                  \<comment> \<open>Image keys can only be set on containers.\<close>
  | ErrRawSeccompExclusive        \<comment> \<open>raw.seccomp is mutually exclusive with security.syscalls*\<close>
  | ErrWhitelistExclusive         \<comment> \<open>security.syscalls.whitelist is mutually exclusive with security.syscalls.blacklist*\<close>
  | ErrNoIdmapAllocation          \<comment> \<open>LXD doesn't have a uid/gid allocation. In this mode, only privileged containers are supported.\<close>
  | ErrUnprivilegedOnly           \<comment> \<open>LXD was configured to only allow unprivileged containers\<close>
  | ErrMissingDeviceType string   \<comment> \<open>Missing device type for device '%s'\<close>
  | ErrInvalidDeviceTypeFor string \<comment> \<open>Invalid device type for device '%s'\<close>
  | ErrInvalidDeviceConfigKey string string \<comment> \<open>Invalid device configuration key for %s: %s\<close>
  | ErrMissingNicType             \<comment> \<open>Missing nic type\<close>
  | ErrBadNicType string          \<comment> \<open>Bad nic type: %s\<close>
  | ErrMissingNicParent string    \<comment> \<open>Missing parent for %s type nic\<close>
  | ErrDuplicateDiskPath string   \<comment> \<open>More than one disk device uses the same path: %s.\<close>
  | ErrDiskMissingPath            \<comment> \<open>Disk entry is missing the required "path" property.\<close>
  | ErrDiskMissingSource          \<comment> \<open>Disk entry is missing the required "source" property.\<close>
  | ErrRootDiskSource             \<comment> \<open>Root disk entry may not have a "source" property set.\<close>
  | ErrSizeNotRoot                \<comment> \<open>Only the root disk may have a size quota.\<close>
  | ErrRecursive                  \<comment> \<open>The recursive option is only supported for additional bind-mounted paths.\<close>
  | ErrAbsoluteVolume             \<comment> \<open>Storage volumes cannot be specified as absolute paths.\<close>
  | ErrPoolMissing string         \<comment> \<open>The "%s" storage pool doesn't exist.\<close>
  | ErrLiblxc3                    \<comment> \<open>liblxc 3.0 is required for mount propagation configuration\<close>
  | ErrInvalidPropagation string  \<comment> \<open>Invalid propagation mode '%s'\<close>
  | ErrUnixMissingSourcePath      \<comment> \<open>Unix device entry is missing the required "source" or "path" property.\<close>
  | ErrDevicePathMissing          \<comment> \<open>The device path doesn't exist on the host and major/minor wasn't specified.\<close>
  | ErrUnixCharIsBlock            \<comment> \<open>Path specified for unix-char device is a block device.\<close>
  | ErrUnixBlockIsChar            \<comment> \<open>Path specified for unix-block device is a character device.\<close>
  | ErrUsbVendorid                \<comment> \<open>Missing vendorid for USB device.\<close>
  | ErrInvalidPCI string          \<comment> \<open>Invalid PCI address (no device found): %s\<close>
  | ErrGpuPciSet                  \<comment> \<open>Cannot use id, productid or vendorid when pci is set\<close>
  | ErrGpuIdSet                   \<comment> \<open>Cannot use pci, productid or vendorid when id is set\<close>
  | ErrProxyListen                \<comment> \<open>Proxy device entry is missing the required "listen" property.\<close>
  | ErrProxyConnect               \<comment> \<open>Proxy device entry is missing the required "connect" property.\<close>
  | ErrProxyUnixOnly              \<comment> \<open>Only proxy devices for non-abstract unix sockets can carry uid, gid, or mode properties\<close>
  | ErrInvalidDeviceType string   \<comment> \<open>Invalid device type: %s\<close>
  | ErrArchNotSupported           \<comment> \<open>Requested architecture isn't supported by this host\<close>
  | ErrProfileMissing string      \<comment> \<open>Requested profile '%s' doesn't exist\<close>
  | ErrDuplicateProfile           \<comment> \<open>Duplicate profile found in request\<close>
  | ErrExists string string       \<comment> \<open>%s '%s' already exists\<close>
  | ErrNotRunning                 \<comment> \<open>Unable to create a stateful snapshot. The container isn't running.\<close>
  | ErrNoCriu                     \<comment> \<open>Unable to create a stateful snapshot. CRIU isn't installed.\<close>
  | ErrBackupExists string        \<comment> \<open>backup '%s' already exists\<close>
  | ErrImageLastUse ext_error     \<comment> \<open>Error updating image last use date: %s\<close>

text \<open>
  A Go \<open>map[string]string\<close> is an association list: the list order is the order in
  which \<open>range\<close> visits the entries (Go leaves it unspecified, so a statement for all
  lists covers every order).  Reading a missing key gives the empty string, as in Go.
  A \<open>nil\<close> map is \<open>None\<close>.
\<close>

type_synonym strmap = "(string \<times> string) list"
type_synonym device = strmap
type_synonym devices = "(string \<times> device) list"

definition mget :: "strmap \<Rightarrow> string \<Rightarrow> string" where
  "mget m k = (case map_of m k of None \<Rightarrow> [] | Some v \<Rightarrow> v)"

definition mhas :: "strmap \<Rightarrow> string \<Rightarrow> bool" where
  "mhas m k = (map_of m k \<noteq> None)"

definition StringInSlice :: "string \<Rightarrow> string list \<Rightarrow> bool" where
  "StringInSlice key xs = (key \<in> set xs)"

definition IntInSlice :: "int \<Rightarrow> int list \<Rightarrow> bool" where
  "IntInSlice key xs = (key \<in> set xs)"

definition HasPrefix :: "string \<Rightarrow> string \<Rightarrow> bool" where
  "HasPrefix s p = prefix p s"

text \<open>\<open>shared.SnapshotDelimiter\<close>: the one character that line 821 writes between the
  parent's and the snapshot's name.\<close>

definition SnapshotDelimiter :: char where
  "SnapshotDelimiter = CHR ''/''"

text \<open>\<open>strings.SplitN(name, shared.SnapshotDelimiter, 2)\<close>: at most two fields, cut at
  the first delimiter.\<close>

definition SplitN2 :: "string \<Rightarrow> string list" where
  "SplitN2 name =
     (if SnapshotDelimiter \<in> set name
      then [takeWhile (\<lambda>c. c \<noteq> SnapshotDelimiter) name,
            tl (dropWhile (\<lambda>c. c \<noteq> SnapshotDelimiter) name)]
      else [name])"

text \<open>
  What container.go consults outside itself while validating: the host facts of
  \<open>sys.OS\<close>, the process environment, the file system probes, and the helpers of
  packages shared, util, osarch and db that are not part of this file.  They are
  parameters of the model.
\<close>

record host =
  Architectures :: "int list"                                   \<comment> \<open>sys.OS.Architectures\<close>
  HasIdmapSet :: bool                                           \<comment> \<open>sys.OS.IdmapSet != nil\<close>
  ConfigKeyChecker :: "string \<Rightarrow> ext_error + (string \<Rightarrow> ext_error option)" \<comment> \<open>shared.ConfigKeyChecker\<close>
  lxcValidConfig :: "string \<Rightarrow> ext_error option"
  parseRawIdmap :: "string \<Rightarrow> ext_error + int list"                  \<comment> \<open>the Hostid of each entry\<close>
  Getenv :: "string \<Rightarrow> string"                                   \<comment> \<open>os.Getenv\<close>
  IsTrue :: "string \<Rightarrow> bool"                                     \<comment> \<open>shared.IsTrue\<close>
  ValidHostname :: "string \<Rightarrow> bool"                              \<comment> \<open>shared.ValidHostname\<close>
  IsDir :: "string \<Rightarrow> bool"                                      \<comment> \<open>shared.IsDir\<close>
  PathExists :: "string \<Rightarrow> bool"                                 \<comment> \<open>shared.PathExists\<close>
  IsAbs :: "string \<Rightarrow> bool"                                      \<comment> \<open>filepath.IsAbs\<close>
  StoragePoolGetID :: "string \<Rightarrow> ext_error + int"                    \<comment> \<open>db.Cluster.StoragePoolGetID\<close>
  LiblxcAtLeast :: "nat \<Rightarrow> nat \<Rightarrow> nat \<Rightarrow> bool"                     \<comment> \<open>util.RuntimeLiblxcVersionAtLeast\<close>
  deviceGetAttributes :: "string \<Rightarrow> ext_error + string"              \<comment> \<open>the device type, "c" or "b"\<close>
  GetRootDiskDevice :: "devices \<Rightarrow> ext_error + (string \<times> device)"     \<comment> \<open>shared.GetRootDiskDevice\<close>
  ArchitectureName :: "int \<Rightarrow> ext_error + string"                    \<comment> \<open>osarch.ArchitectureName\<close>
  LookPathCriu :: "ext_error option"                                \<comment> \<open>exec.LookPath("criu")\<close>

text \<open>The three architecture identifiers of package osarch named at lines 75 to 77.\<close>

definition ARCH_64BIT_INTEL_X86 :: int where "ARCH_64BIT_INTEL_X86 = 2"
definition ARCH_64BIT_ARMV8_LITTLE_ENDIAN :: int where "ARCH_64BIT_ARMV8_LITTLE_ENDIAN = 4"
definition ARCH_64BIT_POWERPC_BIG_ENDIAN :: int where "ARCH_64BIT_POWERPC_BIG_ENDIAN = 6"

section \<open>Helper functions\<close>

definition containerGetParentAndSnapshotName :: "string \<Rightarrow> string \<times> string \<times> bool" where
  "containerGetParentAndSnapshotName name =
     (let fields = SplitN2 name in
      if length fields = 1 then (name, [], False)
      else (fields ! 0, fields ! 1, True))"

definition containerValidName :: "host \<Rightarrow> string \<Rightarrow> error option" where
  "containerValidName h name =
     (if SnapshotDelimiter \<in> set name then Some ErrSnapshotDelimiter
      else if \<not> ValidHostname h name then Some ErrInvalidHostname
      else None)"

definition containerValidConfigKey :: "host \<Rightarrow> string \<Rightarrow> string \<Rightarrow> error option" where
  "containerValidConfigKey h key val =
     (case ConfigKeyChecker h key of
        Inl err \<Rightarrow> Some (Ext err)
      | Inr f \<Rightarrow>
          (case f val of
             Some err \<Rightarrow> Some (Ext err)
           | None \<Rightarrow>
               if key = ''raw.lxc'' then map_option Ext (lxcValidConfig h val)
               else if key = ''security.syscalls.blacklist_compat'' then
                 (if \<exists>arch \<in> set (Architectures h).
                        arch = ARCH_64BIT_INTEL_X86 \<or>
                        arch = ARCH_64BIT_ARMV8_LITTLE_ENDIAN \<or>
                        arch = ARCH_64BIT_POWERPC_BIG_ENDIAN
                  then None
                  else Some ErrBlacklistCompatArch)
               else None))"

definition containerNetworkLimitKeys :: "string list" where
  "containerNetworkLimitKeys = [''limits.max'', ''limits.ingress'', ''limits.egress'']"

definition containerValidDeviceConfigKey :: "string \<Rightarrow> string \<Rightarrow> bool" where
  "containerValidDeviceConfigKey t k =
     (if k = ''type'' then True
      else if t = ''unix-char'' \<or> t = ''unix-block'' then
        k \<in> set [''gid'', ''major'', ''minor'', ''mode'', ''source'', ''path'', ''required'', ''uid'']
      else if t = ''nic'' then
        k \<in> set [''limits.max'', ''limits.ingress'', ''limits.egress'', ''host_name'', ''hwaddr'',
                  ''mtu'', ''name'', ''nictype'', ''parent'', ''vlan'', ''ipv4.address'',
                  ''ipv6.address'', ''security.mac_filtering'', ''maas.subnet.ipv4'',
                  ''maas.subnet.ipv6'']
      else if t = ''disk'' then
        k \<in> set [''limits.max'', ''limits.read'', ''limits.write'', ''optional'', ''path'',
                  ''readonly'', ''size'', ''source'', ''recursive'', ''pool'', ''propagation'']
      else if t = ''usb'' then
        k \<in> set [''vendorid'', ''productid'', ''mode'', ''gid'', ''uid'', ''required'']
      else if t = ''gpu'' then
        k \<in> set [''vendorid'', ''productid'', ''id'', ''pci'', ''mode'', ''gid'', ''uid'']
      else if t = ''infiniband'' then
        k \<in> set [''hwaddr'', ''mtu'', ''name'', ''nictype'', ''parent'']
      else if t = ''proxy'' then
        k \<in> set [''bind'', ''connect'', ''gid'', ''listen'', ''mode'', ''uid'']
      else if t = ''none'' then False
      else False)"

definition allowedUnprivilegedOnlyMap :: "host \<Rightarrow> string \<Rightarrow> error option" where
  "allowedUnprivilegedOnlyMap h rawIdmap =
     (case parseRawIdmap h rawIdmap of
        Inl err \<Rightarrow> Some (Ext err)
      | Inr rawMaps \<Rightarrow> if 0 \<in> set rawMaps then Some ErrMapRoot else None)"

section \<open>containerValidConfig\<close>

text \<open>The loop of lines 272 to 285 over the entries of the config map.\<close>

fun containerValidConfig_keys :: "host \<Rightarrow> bool \<Rightarrow> strmap \<Rightarrow> error option" where
  "containerValidConfig_keys h profile [] = None"
| "containerValidConfig_keys h profile ((k, v) # rest) =
     (if profile \<and> HasPrefix k ''volatile.'' then Some ErrVolatileKeys
      else if profile \<and> HasPrefix k ''image.'' then Some ErrImageKeys
      else (case containerValidConfigKey h k v of
              Some err \<Rightarrow> Some err
            | None \<Rightarrow> containerValidConfig_keys h profile rest))"

definition containerValidConfig :: "host \<Rightarrow> strmap option \<Rightarrow> bool \<Rightarrow> bool \<Rightarrow> error option" where
  "containerValidConfig h config profile expanded =
     (case config of
        None \<Rightarrow> None
      | Some config \<Rightarrow>
         (case containerValidConfig_keys h profile config of
            Some err \<Rightarrow> Some err
          | None \<Rightarrow>
             (let rawSeccomp = mhas config ''raw.seccomp'';
                  whitelist = mhas config ''security.syscalls.whitelist'';
                  blacklist = mhas config ''security.syscalls.blacklist'';
                  blacklistDefault = IsTrue h (mget config ''security.syscalls.blacklist_default'');
                  blacklistCompat = IsTrue h (mget config ''security.syscalls.blacklist_compat'')
              in
              if rawSeccomp \<and> (whitelist \<or> blacklist \<or> blacklistDefault \<or> blacklistCompat)
              then Some ErrRawSeccompExclusive
              else if whitelist \<and> (blacklist \<or> blacklistDefault \<or> blacklistCompat)
              then Some ErrWhitelistExclusive
              else if expanded \<and>
                      (mget config ''security.privileged'' = [] \<or>
                       \<not> IsTrue h (mget config ''security.privileged'')) \<and>
                      \<not> HasIdmapSet h
              then Some ErrNoIdmapAllocation
              else
                (let unprivOnly = Getenv h ''LXD_UNPRIVILEGED_ONLY'' in
                 if IsTrue h unprivOnly then
                   (case (if mget config ''raw.idmap'' \<noteq> []
                          then allowedUnprivilegedOnlyMap h (mget config ''raw.idmap'')
                          else None) of
                      Some err \<Rightarrow> Some err
                    | None \<Rightarrow>
                        if IsTrue h (mget config ''security.privileged'')
                        then Some ErrUnprivilegedOnly
                        else None)
                 else None))))"

section \<open>containerValidDevices\<close>

text \<open>Lines 345 to 356: the checks of a nic device.\<close>

definition nicChecks :: "device \<Rightarrow> error option" where
  "nicChecks m =
     (if mget m ''nictype'' = [] then Some ErrMissingNicType
      else if \<not> StringInSlice (mget m ''nictype'')
                  [''bridged'', ''macvlan'', ''p2p'', ''physical'', ''sriov'']
      then Some (ErrBadNicType (mget m ''nictype''))
      else if StringInSlice (mget m ''nictype'') [''bridged'', ''macvlan'', ''physical'', ''sriov'']
              \<and> mget m ''parent'' = []
      then Some (ErrMissingNicParent (mget m ''nictype''))
      else None)"

text \<open>Lines 357 to 368: the checks of an infiniband device.\<close>

definition infinibandChecks :: "device \<Rightarrow> error option" where
  "infinibandChecks m =
     (if mget m ''nictype'' = [] then Some ErrMissingNicType
      else if \<not> StringInSlice (mget m ''nictype'') [''physical'', ''sriov'']
      then Some (ErrBadNicType (mget m ''nictype''))
      else if mget m ''parent'' = [] then Some (ErrMissingNicParent (mget m ''nictype''))
      else None)"

text \<open>Lines 376 to 415: the checks of a disk device that follow the duplicate-path
  check.\<close>

definition diskChecks :: "host \<Rightarrow> device \<Rightarrow> error option" where
  "diskChecks h m =
     (if mget m ''path'' = [] then Some ErrDiskMissingPath
      else if mget m ''source'' = [] \<and> mget m ''path'' \<noteq> ''/'' then Some ErrDiskMissingSource
      else if mget m ''path'' = ''/'' \<and> mget m ''source'' \<noteq> [] then Some ErrRootDiskSource
      else if mget m ''size'' \<noteq> [] \<and> mget m ''path'' \<noteq> ''/'' then Some ErrSizeNotRoot
      else if (mget m ''path'' = ''/'' \<or> \<not> IsDir h (mget m ''source''))
              \<and> mget m ''recursive'' \<noteq> []
      then Some ErrRecursive
      else if mget m ''pool'' \<noteq> [] \<and> IsAbs h (mget m ''source'') then Some ErrAbsoluteVolume
      else if mget m ''pool'' \<noteq> [] \<and> isl (StoragePoolGetID h (mget m ''pool''))
      then Some (ErrPoolMissing (mget m ''pool''))
      else if mget m ''propagation'' \<noteq> [] \<and> \<not> LiblxcAtLeast h 3 0 0 then Some ErrLiblxc3
      else if mget m ''propagation'' \<noteq> [] \<and>
              \<not> StringInSlice (mget m ''propagation'')
                  [''private'', ''shared'', ''slave'', ''unbindable'',
                   ''rprivate'', ''rshared'', ''rslave'', ''runbindable'']
      then Some (ErrInvalidPropagation (mget m ''propagation''))
      else None)"

text \<open>Lines 416 to 442: the checks of a unix-char or unix-block device.\<close>

definition unixChecks :: "host \<Rightarrow> device \<Rightarrow> error option" where
  "unixChecks h m =
     (if mget m ''source'' = [] \<and> mget m ''path'' = [] then Some ErrUnixMissingSourcePath
      else if (mget m ''required'' = [] \<or> IsTrue h (mget m ''required''))
              \<and> (mget m ''major'' = [] \<or> mget m ''minor'' = [])
      then
        (let srcPath = (if mhas m ''source'' then mget m ''source'' else mget m ''path'') in
         if \<not> PathExists h srcPath then Some ErrDevicePathMissing
         else (case deviceGetAttributes h srcPath of
                 Inl err \<Rightarrow> Some (Ext err)
               | Inr dType \<Rightarrow>
                   if mget m ''type'' = ''unix-char'' \<and> dType \<noteq> ''c'' then Some ErrUnixCharIsBlock
                   else if mget m ''type'' = ''unix-block'' \<and> dType \<noteq> ''b''
                   then Some ErrUnixBlockIsChar
                   else None))
      else None)"

text \<open>Lines 447 to 458: the checks of a gpu device.\<close>

definition gpuChecks :: "host \<Rightarrow> device \<Rightarrow> error option" where
  "gpuChecks h m =
     (if mget m ''pci'' \<noteq> [] \<and> \<not> PathExists h (''/sys/bus/pci/devices/'' @ mget m ''pci'')
      then Some (ErrInvalidPCI (mget m ''pci''))
      else if mget m ''pci'' \<noteq> [] \<and>
              (mget m ''id'' \<noteq> [] \<or> mget m ''productid'' \<noteq> [] \<or> mget m ''vendorid'' \<noteq> [])
      then Some ErrGpuPciSet
      else if mget m ''id'' \<noteq> [] \<and>
              (mget m ''pci'' \<noteq> [] \<or> mget m ''productid'' \<noteq> [] \<or> mget m ''vendorid'' \<noteq> [])
      then Some ErrGpuIdSet
      else None)"

text \<open>Lines 459 to 471: the checks of a proxy device.\<close>

definition proxyChecks :: "device \<Rightarrow> error option" where
  "proxyChecks m =
     (if mget m ''listen'' = [] then Some ErrProxyListen
      else if mget m ''connect'' = [] then Some ErrProxyConnect
      else if (\<not> HasPrefix (mget m ''listen'') ''unix:'' \<or> HasPrefix (mget m ''listen'') ''unix:@'')
              \<and> (mget m ''uid'' \<noteq> [] \<or> mget m ''gid'' \<noteq> [] \<or> mget m ''mode'' \<noteq> [])
      then Some ErrProxyUnixOnly
      else None)"

text \<open>
  The body of the loop of lines 330 to 477 for one device \<open>name\<close>, \<open>m\<close>:
  \<open>Inl\<close> is the error the function returns with, \<open>Inr\<close> the value of
  \<open>diskDevicePaths\<close> with which the loop goes on.
\<close>

definition containerValidDevices_body ::
  "host \<Rightarrow> bool \<Rightarrow> string list \<Rightarrow> string \<Rightarrow> device \<Rightarrow> error + string list" where
  "containerValidDevices_body h expanded diskDevicePaths name m =
     (if mget m ''type'' = [] then Inl (ErrMissingDeviceType name)
      else if \<not> StringInSlice (mget m ''type'')
                  [''disk'', ''gpu'', ''infiniband'', ''nic'', ''none'', ''proxy'',
                   ''unix-block'', ''unix-char'', ''usb'']
      then Inl (ErrInvalidDeviceTypeFor name)
      else
        (case find (\<lambda>k. \<not> containerValidDeviceConfigKey (mget m ''type'') k) (map fst m) of
           Some k \<Rightarrow> Inl (ErrInvalidDeviceConfigKey (mget m ''type'') k)
         | None \<Rightarrow>
            if mget m ''type'' = ''nic'' then
              (case nicChecks m of Some err \<Rightarrow> Inl err | None \<Rightarrow> Inr diskDevicePaths)
            else if mget m ''type'' = ''infiniband'' then
              (case infinibandChecks m of Some err \<Rightarrow> Inl err | None \<Rightarrow> Inr diskDevicePaths)
            else if mget m ''type'' = ''disk'' then
              (case (if \<not> expanded \<and> \<not> StringInSlice (mget m ''path'') diskDevicePaths
                     then Inr (diskDevicePaths @ [mget m ''path''])
                     else if \<not> expanded then Inl (ErrDuplicateDiskPath (mget m ''path''))
                     else Inr diskDevicePaths) of
                 Inl err \<Rightarrow> Inl err
               | Inr paths \<Rightarrow>
                   (case diskChecks h m of Some err \<Rightarrow> Inl err | None \<Rightarrow> Inr paths))
            else if StringInSlice (mget m ''type'') [''unix-char'', ''unix-block''] then
              (case unixChecks h m of Some err \<Rightarrow> Inl err | None \<Rightarrow> Inr diskDevicePaths)
            else if mget m ''type'' = ''usb'' then
              (if mget m ''vendorid'' = [] then Inl ErrUsbVendorid else Inr diskDevicePaths)
            else if mget m ''type'' = ''gpu'' then
              (case gpuChecks h m of Some err \<Rightarrow> Inl err | None \<Rightarrow> Inr diskDevicePaths)
            else if mget m ''type'' = ''proxy'' then
              (case proxyChecks m of Some err \<Rightarrow> Inl err | None \<Rightarrow> Inr diskDevicePaths)
            else if mget m ''type'' = ''none'' then Inr diskDevicePaths
            else Inl (ErrInvalidDeviceType (mget m ''type''))))"

fun containerValidDevices_loop ::
  "host \<Rightarrow> bool \<Rightarrow> string list \<Rightarrow> devices \<Rightarrow> error option" where
  "containerValidDevices_loop h expanded diskDevicePaths [] = None"
| "containerValidDevices_loop h expanded diskDevicePaths ((name, m) # rest) =
     (case containerValidDevices_body h expanded diskDevicePaths name m of
        Inl err \<Rightarrow> Some err
      | Inr paths \<Rightarrow> containerValidDevices_loop h expanded paths rest)"

definition containerValidDevices ::
  "host \<Rightarrow> devices option \<Rightarrow> bool \<Rightarrow> bool \<Rightarrow> error option" where
  "containerValidDevices h devices profile expanded =
     (case devices of
        None \<Rightarrow> None
      | Some devices \<Rightarrow>
         (case containerValidDevices_loop h expanded [] devices of
            Some err \<Rightarrow> Some err
          | None \<Rightarrow>
              if expanded then
                (case GetRootDiskDevice h devices of Inl err \<Rightarrow> Some (Ext err) | Inr _ \<Rightarrow> None)
              else None))"

section \<open>The spec's device key table\<close>

text \<open>
  The device schema in the words of the specification: the fixed enumeration of device
  types and, for each type, the keys it allows besides \<open>type\<close> (\<open>none\<close> allows
  none).  It is compared with \<open>containerValidDeviceConfigKey\<close> below.
\<close>

definition deviceTypes :: "string list" where
  "deviceTypes = [''disk'', ''gpu'', ''infiniband'', ''nic'', ''none'', ''proxy'',
                  ''unix-block'', ''unix-char'', ''usb'']"

definition allowedKeys :: "string \<Rightarrow> string list" where
  "allowedKeys t =
     (if t = ''unix-char'' \<or> t = ''unix-block'' then
        [''gid'', ''major'', ''minor'', ''mode'', ''source'', ''path'', ''required'', ''uid'']
      else if t = ''nic'' then
        [''limits.max'', ''limits.ingress'', ''limits.egress'', ''host_name'', ''hwaddr'', ''mtu'',
         ''name'', ''nictype'', ''parent'', ''vlan'', ''ipv4.address'', ''ipv6.address'',
         ''security.mac_filtering'', ''maas.subnet.ipv4'', ''maas.subnet.ipv6'']
      else if t = ''disk'' then
        [''limits.max'', ''limits.read'', ''limits.write'', ''optional'', ''path'', ''readonly'',
         ''size'', ''source'', ''recursive'', ''pool'', ''propagation'']
      else if t = ''usb'' then
        [''vendorid'', ''productid'', ''mode'', ''gid'', ''uid'', ''required'']
      else if t = ''gpu'' then
        [''vendorid'', ''productid'', ''id'', ''pci'', ''mode'', ''gid'', ''uid'']
      else if t = ''infiniband'' then
        [''hwaddr'', ''mtu'', ''name'', ''nictype'', ''parent'']
      else if t = ''proxy'' then
        [''bind'', ''connect'', ''gid'', ''listen'', ''mode'', ''uid'']
      else [])"

section \<open>An example host\<close>

text \<open>
  Modelled from the spec: \<open>shared.IsTrue\<close> is not under src/.  The spec speaks of a
  key being set to true; the example host takes the value, lower-cased, to be one of
  true, 1, yes, on.
\<close>

definition ToLower :: "string \<Rightarrow> string" where
  "ToLower s =
     map (\<lambda>c. let n = (of_char c :: nat) in if 65 \<le> n \<and> n \<le> 90 then char_of (n + 32) else c) s"

definition shared_IsTrue :: "string \<Rightarrow> bool" where
  "shared_IsTrue v = StringInSlice (ToLower v) [''true'', ''1'', ''yes'', ''on'']"

text \<open>
  Modelled from the spec: \<open>shared.GetRootDiskDevice\<close> is not under src/.  The root
  disk device is the disk entry with path \<open>/\<close> and no source; exactly one must exist
  in the device set.
\<close>

definition IsRootDiskDevice :: "device \<Rightarrow> bool" where
  "IsRootDiskDevice dev =
     (mget dev ''type'' = ''disk'' \<and> mget dev ''path'' = ''/'' \<and> mget dev ''source'' = [])"

definition shared_GetRootDiskDevice :: "devices \<Rightarrow> ext_error + (string \<times> device)" where
  "shared_GetRootDiskDevice devs =
     (case filter (\<lambda>(n, dev). IsRootDiskDevice dev) devs of
        [] \<Rightarrow> Inl (ErrOther ''No root device could be found.'')
      | [(n, dev)] \<Rightarrow> Inr (n, dev)
      | _ \<Rightarrow> Inl (ErrOther ''More than one root device found.''))"

text \<open>
  Modelled from the spec: \<open>shared.ConfigKeyChecker\<close> is not under src/.  The example
  host knows the keys the spec names in its rules on config maps: the boolean ones
  take a boolean spelling, the others any value; every other key is unknown.
\<close>

definition IsBool :: "string \<Rightarrow> ext_error option" where
  "IsBool v =
     (if StringInSlice (ToLower v) [''true'', ''false'', ''yes'', ''no'', ''1'', ''0'', ''on'', ''off'']
      then None else Some (ErrOther ''Invalid value for a boolean''))"

definition exampleConfigKeyChecker :: "string \<Rightarrow> ext_error + (string \<Rightarrow> ext_error option)" where
  "exampleConfigKeyChecker key =
     (if key \<in> set [''raw.seccomp'', ''raw.lxc'', ''raw.idmap'', ''security.syscalls.whitelist'',
                     ''security.syscalls.blacklist'', ''volatile.base_image'']
      then Inr (\<lambda>v. None)
      else if key \<in> set [''security.syscalls.blacklist_default'',
                          ''security.syscalls.blacklist_compat'', ''security.privileged'']
      then Inr IsBool
      else Inl (ErrOther ''Unknown configuration key''))"

definition exampleHost :: host where
  "exampleHost =
     \<lparr> Architectures = [ARCH_64BIT_INTEL_X86],
       HasIdmapSet = True,
       ConfigKeyChecker = exampleConfigKeyChecker,
       lxcValidConfig = (\<lambda>v. None),
       parseRawIdmap = (\<lambda>v. Inr []),
       Getenv = (\<lambda>v. []),
       IsTrue = shared_IsTrue,
       ValidHostname = (\<lambda>n. n \<noteq> []),
       IsDir = (\<lambda>p. True),
       PathExists = (\<lambda>p. True),
       IsAbs = (\<lambda>p. HasPrefix p ''/''),
       StoragePoolGetID = (\<lambda>p. if p = ''default'' then Inr 1 else Inl ErrNoSuchObject),
       LiblxcAtLeast = (\<lambda>a b c. True),
       deviceGetAttributes = (\<lambda>p. Inr ''c''),
       GetRootDiskDevice = shared_GetRootDiskDevice,
       ArchitectureName = (\<lambda>a. if a = ARCH_64BIT_INTEL_X86 then Inr ''x86_64''
                                 else Inl (ErrOther ''Architecture isn't supported'')),
       LookPathCriu = None \<rparr>"

section \<open>The catalog, the drivers and the world they act on\<close>

datatype ctype = CTypeRegular | CTypeSnapshot

text \<open>\<open>db.ContainerArgs\<close>; a nil map or slice is \<open>None\<close>.\<close>

record ContainerArgs =
  ID :: int
  Architecture :: int
  BaseImage :: string
  Config :: "strmap option"
  CreationDate :: nat
  LastUsedDate :: nat
  Ctype :: ctype
  Description :: string
  Devices :: "devices option"
  Ephemeral :: bool
  Name :: string
  Profiles :: "string list option"
  Stateful :: bool

text \<open>What the flows of this file read from a value of the \<open>container\<close> interface.
  \<open>IsRunning\<close>, \<open>StatePath\<close>, \<open>Snapshots\<close> and the storage type are asked of the
  drivers by the container's name.\<close>

record container =
  cName :: string
  cArchitecture :: int
  cLocalConfig :: "strmap option"
  cLocalDevices :: "devices option"
  cExpandedDevices :: devices
  cDescription :: string
  cEphemeral :: bool
  cProfiles :: "string list option"

text \<open>\<open>db.ContainerBackupArgs\<close>, the \<open>backup\<close> handle and \<open>backupInfo\<close>.\<close>

record ContainerBackupArgs =
  BackupID :: int
  BackupContainerID :: int
  BackupName :: string
  BackupCreationDate :: nat
  BackupExpiryDate :: nat
  BackupContainerOnly :: bool
  BackupOptimizedStorage :: bool

record backup =
  bContainer :: container
  bId :: int
  bName :: string
  bCreationDate :: nat
  bExpiryDate :: nat
  bContainerOnly :: bool
  bOptimizedStorage :: bool

record backupInfo =
  InfoName :: string
  Pool :: string
  HasBinaryFormat :: bool

text \<open>The calls with an effect outside this file, as they are recorded in the world's
  trace.\<close>

datatype event =
    EvContainerCreate string               \<comment> \<open>s.Cluster.ContainerCreate inserted the record\<close>
  | EvContainerRemove string               \<comment> \<open>s.Cluster.ContainerRemove(name)\<close>
  | EvContainerDelete string               \<comment> \<open>c.Delete()\<close>
  | EvStorageContainerCopy string string bool
  | EvStorageContainerSnapshotCreate string string
  | EvStorageStart string bool             \<comment> \<open>c.StorageStart() and the boolean it returned\<close>
  | EvStorageStop string                   \<comment> \<open>c.StorageStop()\<close>
  | EvConfigKeySet string string string
  | EvStorageEntitySetQuota string int
  | EvWriteBackupFile string
  | EvMkdirAll string
  | EvRemoveAll string
  | EvMigrate string
  | EvLifecycle string string string
  | EvContainerBackupLoad string string    \<comment> \<open>pool.ContainerBackupLoad: the pool, the backup\<close>
  | EvFixBackupStoragePool string
  | EvContainerBackupCreate string         \<comment> \<open>s.Cluster.ContainerBackupCreate inserted the record\<close>
  | EvContainerBackupRemove string
  | EvStorageContainerBackupCreate string
  | EvCreateBackupIndexFile string

record world =
  catalog :: "ContainerArgs list"          \<comment> \<open>the container and snapshot records\<close>
  backups :: "ContainerBackupArgs list"    \<comment> \<open>the backup records\<close>
  dirs :: "string list"                    \<comment> \<open>the directories on disk\<close>
  started :: "string list"                 \<comment> \<open>the containers whose storage volume is started\<close>
  nextID :: int
  trace :: "event list"

text \<open>
  The collaborators whose code is not in container.go: the database, the storage and
  runtime drivers, the file system.  Whether a call fails, and what a pure query
  answers, is a parameter; the effect of a call that succeeds is written out below.
\<close>

record drivers =
  ClusterProfiles :: "ext_error + string list"                   \<comment> \<open>s.Cluster.Profiles()\<close>
  ContainerCreate_fails :: "ContainerArgs \<Rightarrow> ext_error option"
  ContainerGet_fails :: "string \<Rightarrow> ext_error option"
  ContainerName_fails :: "int \<Rightarrow> ext_error option"
  containerLXCCreate_fails :: "ContainerArgs \<Rightarrow> ext_error option"
  containerLXCLoad_fails :: "ContainerArgs \<Rightarrow> ext_error option"
  expandDevices :: "string list option \<Rightarrow> devices option \<Rightarrow> devices" \<comment> \<open>profiles and local devices merged\<close>
  Snapshots :: "string \<Rightarrow> ext_error + container list"          \<comment> \<open>c.Snapshots()\<close>
  IsRunning :: "string \<Rightarrow> bool"                                 \<comment> \<open>c.IsRunning()\<close>
  StatePath :: "string \<Rightarrow> string"                               \<comment> \<open>c.StatePath()\<close>
  LogPath :: "string \<Rightarrow> string"                                 \<comment> \<open>shared.LogPath\<close>
  GetStorageTypeName :: "string \<Rightarrow> string"                      \<comment> \<open>c.Storage().GetStorageTypeName()\<close>
  StorageContainerCopy :: "string \<Rightarrow> string \<Rightarrow> bool \<Rightarrow> ext_error option"
  StorageContainerSnapshotCreate :: "string \<Rightarrow> string \<Rightarrow> ext_error option"
  StorageStart_fails :: "string \<Rightarrow> ext_error option"
  ConfigKeySet_fails :: "string \<Rightarrow> string \<Rightarrow> string \<Rightarrow> ext_error option"
  ParseByteSizeString :: "string \<Rightarrow> ext_error + int"              \<comment> \<open>shared.ParseByteSizeString\<close>
  StorageEntitySetQuota_fails :: "string \<Rightarrow> int \<Rightarrow> ext_error option"
  writeBackupFile_fails :: "string \<Rightarrow> ext_error option"
  Delete_fails :: "string \<Rightarrow> ext_error option"
  MkdirAll_fails :: "string \<Rightarrow> ext_error option"
  Migrate_fails :: "string \<Rightarrow> ext_error option"
  storagePoolInit :: "string \<Rightarrow> ext_error + string"               \<comment> \<open>the pool handle is the pool's name\<close>
  ProfileGet :: "string \<Rightarrow> ext_error + devices"                   \<comment> \<open>the profile's Devices\<close>
  ContainerBackupLoad_fails :: "string \<Rightarrow> backupInfo \<Rightarrow> ext_error option"
  fixBackupStoragePool_fails :: "backupInfo \<Rightarrow> ext_error option"
  ContainerBackupCreate_fails :: "ContainerBackupArgs \<Rightarrow> ext_error option"
  ContainerGetBackup_fails :: "string \<Rightarrow> ext_error option"
  StorageContainerBackupCreate_fails :: "string \<Rightarrow> string \<Rightarrow> ext_error option"
  createBackupIndexFile_fails :: "string \<Rightarrow> string \<Rightarrow> ext_error option"

definition emit :: "event \<Rightarrow> world \<Rightarrow> world" where
  "emit ev w = w\<lparr>trace := trace w @ [ev]\<rparr>"

definition catalogNames :: "world \<Rightarrow> string list" where
  "catalogNames w = map Name (catalog w)"

definition backupNames :: "world \<Rightarrow> string list" where
  "backupNames w = map BackupName (backups w)"

text \<open>
  Modelled from the spec: the catalog (\<open>db.Cluster\<close>) is not under src/.
  \<open>CreateRecord(args) \<rightarrow> id | AlreadyExists\<close> inserts the record unless the name is
  taken (or the database fails otherwise); \<open>RemoveRecord(name)\<close> removes the record of
  that name; \<open>GetRecord(name)\<close> and \<open>GetRecordByID(id)\<close> read it.
\<close>

definition ContainerCreate :: "drivers \<Rightarrow> ContainerArgs \<Rightarrow> world \<Rightarrow> (ext_error + int) \<times> world" where
  "ContainerCreate d args w =
     (case ContainerCreate_fails d args of
        Some err \<Rightarrow> (Inl err, w)
      | None \<Rightarrow>
          if Name args \<in> set (catalogNames w) then (Inl ErrAlreadyDefined, w)
          else (Inr (nextID w),
                emit (EvContainerCreate (Name args))
                  (w\<lparr>catalog := catalog w @ [args\<lparr>ID := nextID w\<rparr>], nextID := nextID w + 1\<rparr>)))"

definition ContainerRemove :: "string \<Rightarrow> world \<Rightarrow> world" where
  "ContainerRemove name w =
     emit (EvContainerRemove name) (w\<lparr>catalog := filter (\<lambda>a. Name a \<noteq> name) (catalog w)\<rparr>)"

definition ContainerGet :: "drivers \<Rightarrow> string \<Rightarrow> world \<Rightarrow> ext_error + ContainerArgs" where
  "ContainerGet d name w =
     (case ContainerGet_fails d name of
        Some err \<Rightarrow> Inl err
      | None \<Rightarrow> (case find (\<lambda>a. Name a = name) (catalog w) of
                   None \<Rightarrow> Inl ErrNoSuchObject
                 | Some a \<Rightarrow> Inr a))"

definition ContainerName :: "drivers \<Rightarrow> int \<Rightarrow> world \<Rightarrow> ext_error + string" where
  "ContainerName d i w =
     (case ContainerName_fails d i of
        Some err \<Rightarrow> Inl err
      | None \<Rightarrow> (case find (\<lambda>a. ID a = i) (catalog w) of
                   None \<Rightarrow> Inl ErrNoSuchObject
                 | Some a \<Rightarrow> Inr (Name a)))"

definition ContainerBackupCreate ::
  "drivers \<Rightarrow> ContainerBackupArgs \<Rightarrow> world \<Rightarrow> ext_error option \<times> world" where
  "ContainerBackupCreate d args w =
     (case ContainerBackupCreate_fails d args of
        Some err \<Rightarrow> (Some err, w)
      | None \<Rightarrow>
          if BackupName args \<in> set (backupNames w) then (Some ErrAlreadyDefined, w)
          else (None, emit (EvContainerBackupCreate (BackupName args))
                        (w\<lparr>backups := backups w @ [args]\<rparr>)))"

definition ContainerBackupRemove :: "string \<Rightarrow> world \<Rightarrow> world" where
  "ContainerBackupRemove name w =
     emit (EvContainerBackupRemove name)
       (w\<lparr>backups := filter (\<lambda>b. BackupName b \<noteq> name) (backups w)\<rparr>)"

definition ContainerGetBackup :: "drivers \<Rightarrow> string \<Rightarrow> world \<Rightarrow> ext_error + ContainerBackupArgs" where
  "ContainerGetBackup d name w =
     (case ContainerGetBackup_fails d name of
        Some err \<Rightarrow> Inl err
      | None \<Rightarrow> (case find (\<lambda>b. BackupName b = name) (backups w) of
                   None \<Rightarrow> Inl ErrNoSuchObject
                 | Some b \<Rightarrow> Inr b))"

text \<open>
  Modelled from the spec: \<open>containerLXCCreate\<close> and \<open>containerLXCLoad\<close> are not
  under src/.  They hand back the container of the record: its name, architecture,
  local config and devices, description, profiles are those of the args.
\<close>

definition containerOfArgs :: "drivers \<Rightarrow> ContainerArgs \<Rightarrow> container" where
  "containerOfArgs d args =
     \<lparr> cName = Name args, cArchitecture = Architecture args, cLocalConfig = Config args,
       cLocalDevices = Devices args,
       cExpandedDevices = expandDevices d (Profiles args) (Devices args),
       cDescription = Description args, cEphemeral = Ephemeral args,
       cProfiles = Profiles args \<rparr>"

definition containerLXCCreate :: "drivers \<Rightarrow> ContainerArgs \<Rightarrow> ext_error + container" where
  "containerLXCCreate d args =
     (case containerLXCCreate_fails d args of
        Some err \<Rightarrow> Inl err
      | None \<Rightarrow> Inr (containerOfArgs d args))"

definition containerLXCLoad :: "drivers \<Rightarrow> ContainerArgs \<Rightarrow> ext_error + container" where
  "containerLXCLoad d args =
     (case containerLXCLoad_fails d args of
        Some err \<Rightarrow> Inl err
      | None \<Rightarrow> Inr (containerOfArgs d args))"

text \<open>
  Modelled from the spec: \<open>c.Delete()\<close>, \<open>c.StorageStart()\<close> and \<open>c.StorageStop()\<close>
  are not under src/.  Delete removes the container's record unless it fails.
  \<open>Start(c) \<rightarrow> (started bool, err)\<close>: true means this call is the one that actually
  started the volume; Stop stops it.
\<close>

definition containerDelete :: "drivers \<Rightarrow> container \<Rightarrow> world \<Rightarrow> world" where
  "containerDelete d c w =
     (case Delete_fails d (cName c) of
        Some err \<Rightarrow> emit (EvContainerDelete (cName c)) w
      | None \<Rightarrow> emit (EvContainerDelete (cName c))
                 (w\<lparr>catalog := filter (\<lambda>a. Name a \<noteq> cName c) (catalog w)\<rparr>))"

definition StorageStart :: "drivers \<Rightarrow> container \<Rightarrow> world \<Rightarrow> (ext_error + bool) \<times> world" where
  "StorageStart d c w =
     (case StorageStart_fails d (cName c) of
        Some err \<Rightarrow> (Inl err, w)
      | None \<Rightarrow>
          if cName c \<in> set (started w) then (Inr False, emit (EvStorageStart (cName c) False) w)
          else (Inr True, emit (EvStorageStart (cName c) True)
                            (w\<lparr>started := started w @ [cName c]\<rparr>)))"

definition StorageStop :: "container \<Rightarrow> world \<Rightarrow> world" where
  "StorageStop c w =
     emit (EvStorageStop (cName c)) (w\<lparr>started := filter (\<lambda>n. n \<noteq> cName c) (started w)\<rparr>)"

text \<open>The backup file of a container, and the directories on disk: \<open>os.MkdirAll\<close>
  creates the directory unless it fails, \<open>os.RemoveAll\<close> removes it.\<close>

definition writeBackupFile :: "drivers \<Rightarrow> container \<Rightarrow> world \<Rightarrow> ext_error option \<times> world" where
  "writeBackupFile d c w = (writeBackupFile_fails d (cName c), emit (EvWriteBackupFile (cName c)) w)"

definition MkdirAll :: "drivers \<Rightarrow> string \<Rightarrow> world \<Rightarrow> ext_error option \<times> world" where
  "MkdirAll d path w =
     (case MkdirAll_fails d path of
        Some err \<Rightarrow> (Some err, w)
      | None \<Rightarrow> (None, emit (EvMkdirAll path)
                         (w\<lparr>dirs := (if path \<in> set (dirs w) then dirs w else dirs w @ [path])\<rparr>)))"

definition RemoveAll :: "string \<Rightarrow> world \<Rightarrow> world" where
  "RemoveAll path w = emit (EvRemoveAll path) (w\<lparr>dirs := filter (\<lambda>p. p \<noteq> path) (dirs w)\<rparr>)"

definition IsSnapshot :: "string \<Rightarrow> bool" where
  "IsSnapshot name = (SnapshotDelimiter \<in> set name)"


section \<open>The creation flows\<close>

subsection \<open>containerCreateInternal (lines 960 to 1066)\<close>

text \<open>Lines 961 to 980: the defaults.  \<open>s.OS.Architectures[0]\<close> panics on an empty
  list.\<close>

definition containerCreateInternal_defaults :: "host \<Rightarrow> ContainerArgs \<Rightarrow> error + ContainerArgs" where
  "containerCreateInternal_defaults h args0 =
     (let args1 = (if Profiles args0 = None then args0\<lparr>Profiles := Some [''default'']\<rparr> else args0);
          args2 = (if Config args1 = None then args1\<lparr>Config := Some []\<rparr> else args1);
          args3 = (if BaseImage args2 \<noteq> []
                   then args2\<lparr>Config := Some (AList.update ''volatile.base_image'' (BaseImage args2)
                                                (case Config args2 of None \<Rightarrow> [] | Some c \<Rightarrow> c))\<rparr>
                   else args2);
          args4 = (if Devices args3 = None then args3\<lparr>Devices := Some []\<rparr> else args3)
      in if Architecture args4 = 0
         then (case Architectures h of
                 [] \<Rightarrow> Inl ErrPanic
               | a # _ \<Rightarrow> Inr (args4\<lparr>Architecture := a\<rparr>))
         else Inr args4)"

text \<open>Lines 1018 to 1029: the loop over the requested profiles.\<close>

fun containerCreateInternal_profiles :: "string list \<Rightarrow> string list \<Rightarrow> string list \<Rightarrow> error option" where
  "containerCreateInternal_profiles profiles checkedProfiles [] = None"
| "containerCreateInternal_profiles profiles checkedProfiles (profile # rest) =
     (if \<not> StringInSlice profile profiles then Some (ErrProfileMissing profile)
      else if StringInSlice profile checkedProfiles then Some ErrDuplicateProfile
      else containerCreateInternal_profiles profiles (checkedProfiles @ [profile]) rest)"

text \<open>Lines 982 to 1029: the validation, on the args after the defaults.\<close>

definition containerCreateInternal_validate :: "host \<Rightarrow> drivers \<Rightarrow> ContainerArgs \<Rightarrow> error option" where
  "containerCreateInternal_validate h d args =
     (case (if Ctype args = CTypeRegular then containerValidName h (Name args) else None) of
        Some err \<Rightarrow> Some err
      | None \<Rightarrow>
     (case containerValidConfig h (Config args) False False of
        Some err \<Rightarrow> Some err
      | None \<Rightarrow>
     (case containerValidDevices h (Devices args) False False of
        Some err \<Rightarrow> Some err
      | None \<Rightarrow>
     (case ArchitectureName h (Architecture args) of
        Inl err \<Rightarrow> Some (Ext err)
      | Inr _ \<Rightarrow>
     if \<not> IntInSlice (Architecture args) (Architectures h) then Some ErrArchNotSupported
     else
     (case ClusterProfiles d of
        Inl err \<Rightarrow> Some (Ext err)
      | Inr profiles \<Rightarrow>
          containerCreateInternal_profiles profiles []
            (case Profiles args of None \<Rightarrow> [] | Some ps \<Rightarrow> ps))))))"

definition containerCreateInternal ::
  "host \<Rightarrow> drivers \<Rightarrow> ContainerArgs \<Rightarrow> world \<Rightarrow> (error + container) \<times> world" where
  "containerCreateInternal h d args0 w =
     (case containerCreateInternal_defaults h args0 of
        Inl err \<Rightarrow> (Inl err, w)
      | Inr args \<Rightarrow>
     (case containerCreateInternal_validate h d args of
        Some err \<Rightarrow> (Inl err, w)
      | None \<Rightarrow>
     (case ContainerCreate d args w of
        (Inl err, w1) \<Rightarrow>
          if err = ErrAlreadyDefined
          then (Inl (ErrExists (if IsSnapshot (Name args) then ''Snapshot'' else ''Container'')
                       (Name args)), w1)
          else (Inl (Ext err), w1)
      | (Inr newid, w1) \<Rightarrow>
          (let w2 = RemoveAll (LogPath d (Name args)) w1;
               args' = args\<lparr>ID := newid\<rparr>
           in case ContainerGet d (Name args') w2 of
                Inl err \<Rightarrow> (Inl (Ext err), ContainerRemove (Name args') w2)
              | Inr dbArgs \<Rightarrow>
                  (let args'' = args'\<lparr>CreationDate := CreationDate dbArgs,
                                      LastUsedDate := LastUsedDate dbArgs\<rparr>
                   in case containerLXCCreate d args'' of
                        Inl err \<Rightarrow> (Inl (Ext err), ContainerRemove (Name args'') w2)
                      | Inr c \<Rightarrow> (Inr c, w2))))))"

subsection \<open>containerConfigureInternal (lines 1068 to 1112)\<close>

text \<open>Lines 1082 to 1100: the quota of the root disk device.\<close>

definition containerConfigureInternal_quota ::
  "drivers \<Rightarrow> container \<Rightarrow> device \<Rightarrow> world \<Rightarrow> error option \<times> world" where
  "containerConfigureInternal_quota d c rootDiskDevice w =
     (if mget rootDiskDevice ''size'' \<noteq> [] then
        if GetStorageTypeName d (cName c) = ''lvm'' \<and> IsRunning d (cName c) then
          (map_option Ext (ConfigKeySet_fails d (cName c) ''volatile.apply_quota''
                             (mget rootDiskDevice ''size'')),
           emit (EvConfigKeySet (cName c) ''volatile.apply_quota'' (mget rootDiskDevice ''size'')) w)
        else
          (case ParseByteSizeString d (mget rootDiskDevice ''size'') of
             Inl err \<Rightarrow> (Some (Ext err), w)
           | Inr sz \<Rightarrow>
               (map_option Ext (StorageEntitySetQuota_fails d (cName c) sz),
                emit (EvStorageEntitySetQuota (cName c) sz) w))
      else (None, w))"

text \<open>The deferred \<open>c.StorageStop()\<close> is registered at lines 1102 to 1104, after the quota
  block: the returns of lines 1087, 1092 and 1097 leave before it exists.\<close>

definition containerConfigureInternal ::
  "host \<Rightarrow> drivers \<Rightarrow> container \<Rightarrow> world \<Rightarrow> error option \<times> world" where
  "containerConfigureInternal h d c w =
     (case GetRootDiskDevice h (cExpandedDevices c) of
        Inl err \<Rightarrow> (Some (Ext err), w)
      | Inr (rootKey, rootDiskDevice) \<Rightarrow>
     (case StorageStart d c w of
        (Inl err, w1) \<Rightarrow> (Some (Ext err), w1)
      | (Inr ourStart, w1) \<Rightarrow>
     (case containerConfigureInternal_quota d c rootDiskDevice w1 of
        (Some err, w2) \<Rightarrow> (Some err, w2)
      | (None, w2) \<Rightarrow>
     (case writeBackupFile d c w2 of
        (res, w3) \<Rightarrow> (map_option Ext res, if ourStart then StorageStop c w3 else w3)))))"

subsection \<open>containerCreateAsSnapshot (lines 874 to 958)\<close>

text \<open>Lines 877 to 916: the state of a stateful snapshot.\<close>

definition containerCreateAsSnapshot_state ::
  "host \<Rightarrow> drivers \<Rightarrow> container \<Rightarrow> world \<Rightarrow> error option \<times> world" where
  "containerCreateAsSnapshot_state h d sourceContainer w =
     (if \<not> IsRunning d (cName sourceContainer) then (Some ErrNotRunning, w)
      else if LookPathCriu h \<noteq> None then (Some ErrNoCriu, w)
      else
        (case MkdirAll d (StatePath d (cName sourceContainer)) w of
           (Some err, w1) \<Rightarrow> (Some (Ext err), w1)
         | (None, w1) \<Rightarrow>
             (let w2 = emit (EvMigrate (cName sourceContainer)) w1
              in case Migrate_fails d (cName sourceContainer) of
                   Some err \<Rightarrow> (Some (Ext err), RemoveAll (StatePath d (cName sourceContainer)) w2)
                 | None \<Rightarrow> (None, w2))))"

definition containerCreateAsSnapshot ::
  "host \<Rightarrow> drivers \<Rightarrow> ContainerArgs \<Rightarrow> container \<Rightarrow> world \<Rightarrow> (error + container) \<times> world" where
  "containerCreateAsSnapshot h d args sourceContainer w =
     (case (if Stateful args then containerCreateAsSnapshot_state h d sourceContainer w
            else (None, w)) of
        (Some err, w1) \<Rightarrow> (Inl err, w1)
      | (None, w1) \<Rightarrow>
     (case containerCreateInternal h d args w1 of
        (Inl err, w2) \<Rightarrow> (Inl err, w2)
      | (Inr c, w2) \<Rightarrow>
     (let w3 = emit (EvStorageContainerSnapshotCreate (cName c) (cName sourceContainer)) w2
      in case StorageContainerSnapshotCreate d (cName c) (cName sourceContainer) of
           Some err \<Rightarrow> (Inl (Ext err), ContainerRemove (Name args) w3)
         | None \<Rightarrow>
     (case StorageStart d c w3 of
        (Inl err, w4) \<Rightarrow> (Inl (Ext err), w4)
      | (Inr ourStart, w4) \<Rightarrow>
     (case writeBackupFile d sourceContainer w4 of
        (Some err, w5) \<Rightarrow>
          (Inl (Ext err),
           (let w6 = containerDelete d c w5 in if ourStart then StorageStop c w6 else w6))
      | (None, w5) \<Rightarrow>
          (let w6 = (if Stateful args then RemoveAll (StatePath d (cName sourceContainer)) w5 else w5);
               w7 = emit (EvLifecycle ''container-snapshot-created'' (cName sourceContainer) (Name args)) w6
           in (Inr c, if ourStart then StorageStop c w7 else w7)))))))"

subsection \<open>containerCreateFromBackup (lines 630 to 684)\<close>

text \<open>Lines 668 to 683: the unpack, and the rewrite of the backup's pool reference.\<close>

definition containerCreateFromBackup_unpack ::
  "drivers \<Rightarrow> string \<Rightarrow> bool \<Rightarrow> backupInfo \<Rightarrow> world \<Rightarrow> error option \<times> world" where
  "containerCreateFromBackup_unpack d pool fixBackupFile info w =
     (let w1 = emit (EvContainerBackupLoad pool (InfoName info)) w
      in case ContainerBackupLoad_fails d pool info of
           Some err \<Rightarrow> (Some (Ext err), w1)
         | None \<Rightarrow>
             if fixBackupFile
             then (map_option Ext (fixBackupStoragePool_fails d info),
                   emit (EvFixBackupStoragePool (InfoName info)) w1)
             else (None, w1))"

definition containerCreateFromBackup ::
  "host \<Rightarrow> drivers \<Rightarrow> backupInfo \<Rightarrow> world \<Rightarrow> error option \<times> world" where
  "containerCreateFromBackup h d info w =
     (case storagePoolInit d (Pool info) of
        Inr pool \<Rightarrow> containerCreateFromBackup_unpack d pool False info w
      | Inl storageErr \<Rightarrow>
          if storageErr \<noteq> ErrNoSuchObject then (Some (Ext storageErr), w)
          else if HasBinaryFormat info then (Some (Ext storageErr), w)
          else
            (case ProfileGet d ''default'' of
               Inl err \<Rightarrow> (Some (Ext err), w)
             | Inr profileDevices \<Rightarrow>
            (case GetRootDiskDevice h profileDevices of
               Inl err \<Rightarrow> (Some (Ext err), w)
             | Inr (k, v) \<Rightarrow>
            (case storagePoolInit d (mget v ''pool'') of
               Inl err \<Rightarrow> (Some (Ext err), w)
             | Inr pool \<Rightarrow> containerCreateFromBackup_unpack d pool True info w))))"

subsection \<open>containerCreateAsCopy (lines 774 to 872)\<close>









subsection \<open>Backups (lines 1114 to 1188)\<close>

definition containerLoadByName :: "drivers \<Rightarrow> string \<Rightarrow> world \<Rightarrow> ext_error + container" where
  "containerLoadByName d name w =
     (case ContainerGet d name w of
        Inl err \<Rightarrow> Inl err
      | Inr args \<Rightarrow> containerLXCLoad d args)"

definition containerLoadById :: "drivers \<Rightarrow> int \<Rightarrow> world \<Rightarrow> ext_error + container" where
  "containerLoadById d i w =
     (case ContainerName d i w of
        Inl err \<Rightarrow> Inl err
      | Inr name \<Rightarrow> containerLoadByName d name w)"

definition containerBackupLoadByName :: "drivers \<Rightarrow> string \<Rightarrow> world \<Rightarrow> ext_error + backup" where
  "containerBackupLoadByName d name w =
     (case ContainerGetBackup d name w of
        Inl err \<Rightarrow> Inl err
      | Inr args \<Rightarrow>
     (case containerLoadById d (BackupContainerID args) w of
        Inl err \<Rightarrow> Inl err
      | Inr c \<Rightarrow>
          Inr \<lparr> bContainer = c, bId = BackupID args, bName = name,
                bCreationDate = BackupCreationDate args, bExpiryDate = BackupExpiryDate args,
                bContainerOnly = BackupContainerOnly args,
                bOptimizedStorage = BackupOptimizedStorage args \<rparr>))"

text \<open>Line 1170 returns the error of the load with the record of line 1160 in place;
  lines 1176 and 1183 remove it.\<close>

definition containerBackupCreate ::
  "drivers \<Rightarrow> ContainerBackupArgs \<Rightarrow> container \<Rightarrow> world \<Rightarrow> error option \<times> world" where
  "containerBackupCreate d args sourceContainer w =
     (case ContainerBackupCreate d args w of
        (Some err, w1) \<Rightarrow>
          if err = ErrAlreadyDefined then (Some (ErrBackupExists (BackupName args)), w1)
          else (Some (Ext err), w1)
      | (None, w1) \<Rightarrow>
     (case containerBackupLoadByName d (BackupName args) w1 of
        Inl err \<Rightarrow> (Some (Ext err), w1)
      | Inr b \<Rightarrow>
     (let w2 = emit (EvStorageContainerBackupCreate (bName b)) w1
      in case StorageContainerBackupCreate_fails d (bName b) (cName sourceContainer) of
           Some err \<Rightarrow> (Some (Ext err), ContainerBackupRemove (BackupName args) w2)
         | None \<Rightarrow>
     (let w3 = emit (EvCreateBackupIndexFile (bName b)) w2
      in case createBackupIndexFile_fails d (cName sourceContainer) (bName b) of
           Some err \<Rightarrow> (Some (Ext err), ContainerBackupRemove (BackupName args) w3)
         | None \<Rightarrow> (None, w3)))))"

section \<open>Example drivers and an example world\<close>

definition exampleArgs :: ContainerArgs where
  "exampleArgs =
     \<lparr> ID = 0, Architecture = 0, BaseImage = [], Config = None, CreationDate = 0,
       LastUsedDate = 0, Ctype = CTypeRegular, Description = [], Devices = None,
       Ephemeral = False, Name = ''c1'', Profiles = None, Stateful = False \<rparr>"

definition exampleContainer :: "string \<Rightarrow> devices \<Rightarrow> container" where
  "exampleContainer name devs =
     \<lparr> cName = name, cArchitecture = ARCH_64BIT_INTEL_X86, cLocalConfig = Some [],
       cLocalDevices = Some [], cExpandedDevices = devs, cDescription = [],
       cEphemeral = False, cProfiles = Some [''default''] \<rparr>"

definition exampleRoot :: "string \<Rightarrow> devices" where
  "exampleRoot sz =
     [(''root'', [(''type'', ''disk''), (''path'', ''/''), (''pool'', ''default'')] @
                 (if sz = [] then [] else [(''size'', sz)]))]"

definition exampleWorld :: world where
  "exampleWorld =
     \<lparr> catalog = [exampleArgs\<lparr>ID := 1, Name := ''c0'', Architecture := ARCH_64BIT_INTEL_X86\<rparr>],
       backups = [], dirs = [], started = [], nextID = 2, trace = [] \<rparr>"

text \<open>Drivers on which every call succeeds, apart from what the arguments switch on:
  the storage copy fails when \<open>copyFails\<close>, sizes other than decimal digits do not
  parse, the pools are \<open>default\<close> and those of \<open>pools\<close>, the source \<open>c0\<close> has the
  snapshots \<open>snaps\<close>.\<close>

definition exampleDrivers :: "bool \<Rightarrow> string list \<Rightarrow> container list \<Rightarrow> drivers" where
  "exampleDrivers copyFails pools snaps =
     \<lparr> ClusterProfiles = Inr [''default''],
       ContainerCreate_fails = (\<lambda>a. None),
       ContainerGet_fails = (\<lambda>n. None),
       ContainerName_fails = (\<lambda>i. None),
       containerLXCCreate_fails = (\<lambda>a. None),
       containerLXCLoad_fails = (\<lambda>a. None),
       expandDevices = (\<lambda>ps devs. exampleRoot [] @ (case devs of None \<Rightarrow> [] | Some ds \<Rightarrow> ds)),
       Snapshots = (\<lambda>n. if n = ''c0'' then Inr snaps else Inr []),
       IsRunning = (\<lambda>n. False),
       StatePath = (\<lambda>n. ''/var/lib/lxd/containers/'' @ n @ ''/state''),
       LogPath = (\<lambda>n. ''/var/log/lxd/'' @ n),
       GetStorageTypeName = (\<lambda>n. ''dir''),
       StorageContainerCopy = (\<lambda>t s co. if copyFails then Some (ErrOther ''copy failed'') else None),
       StorageContainerSnapshotCreate = (\<lambda>t s. None),
       StorageStart_fails = (\<lambda>n. None),
       ConfigKeySet_fails = (\<lambda>n k v. None),
       ParseByteSizeString = (\<lambda>s. if s \<noteq> [] \<and> list_all (\<lambda>c. c \<in> set ''0123456789'') s
                                   then Inr (int (length s))
                                   else Inl (ErrOther ''Invalid value'')),
       StorageEntitySetQuota_fails = (\<lambda>n s. None),
       writeBackupFile_fails = (\<lambda>n. None),
       Delete_fails = (\<lambda>n. None),
       MkdirAll_fails = (\<lambda>p. None),
       Migrate_fails = (\<lambda>n. None),
       storagePoolInit = (\<lambda>p. if p = ''default'' \<or> p \<in> set pools then Inr p else Inl ErrNoSuchObject),
       ProfileGet = (\<lambda>p. if p = ''default'' then Inr (exampleRoot []) else Inl ErrNoSuchObject),
       ContainerBackupLoad_fails = (\<lambda>p i. None),
       fixBackupStoragePool_fails = (\<lambda>i. None),
       ContainerBackupCreate_fails = (\<lambda>a. None),
       ContainerGetBackup_fails = (\<lambda>n. None),
       StorageContainerBackupCreate_fails = (\<lambda>b s. None),
       createBackupIndexFile_fails = (\<lambda>s b. None) \<rparr>"

definition exampleBackupArgs :: ContainerBackupArgs where
  "exampleBackupArgs =
     \<lparr> BackupID = 0, BackupContainerID = 1, BackupName = ''c0/b1'', BackupCreationDate = 0,
       BackupExpiryDate = 0, BackupContainerOnly = False, BackupOptimizedStorage = False \<rparr>"

definition exampleInfo :: "bool \<Rightarrow> backupInfo" where
  "exampleInfo binary = \<lparr> InfoName = ''b1'', Pool = ''gone'', HasBinaryFormat = binary \<rparr>"


section \<open>Validation of device maps and config maps\<close>

lemma key_table: "containerValidDeviceConfigKey t k = (k = ''type'' \<or> k \<in> set (allowedKeys t))"
  by (simp add: containerValidDeviceConfigKey_def allowedKeys_def)

lemma body_invalid_key:
  assumes t: "mget m ''type'' \<in> set deviceTypes"
    and k: "k \<in> fst ` set m" "\<not> containerValidDeviceConfigKey (mget m ''type'') k"
  shows "\<exists>k'. k' \<in> fst ` set m \<and> \<not> containerValidDeviceConfigKey (mget m ''type'') k' \<and>
          (\<forall>paths. containerValidDevices_body h expanded paths name m =
            Inl (ErrInvalidDeviceConfigKey (mget m ''type'') k'))"
proof -
  from k have "find (\<lambda>k. \<not> containerValidDeviceConfigKey (mget m ''type'') k) (map fst m) \<noteq> None"
    by (auto simp: find_None_iff)
  then obtain k' where f: "find (\<lambda>k. \<not> containerValidDeviceConfigKey (mget m ''type'') k) (map fst m) = Some k'"
    by blast
  then have "k' \<in> fst ` set m" "\<not> containerValidDeviceConfigKey (mget m ''type'') k'"
    by (auto simp: find_Some_iff)
  moreover from t have "mget m ''type'' \<noteq> []"
    and "StringInSlice (mget m ''type'')
           [''disk'', ''gpu'', ''infiniband'', ''nic'', ''none'', ''proxy'',
            ''unix-block'', ''unix-char'', ''usb'']"
    by (auto simp: deviceTypes_def StringInSlice_def)
  ultimately have "k' \<in> fst ` set m \<and> \<not> containerValidDeviceConfigKey (mget m ''type'') k' \<and>
          (\<forall>paths. containerValidDevices_body h expanded paths name m =
            Inl (ErrInvalidDeviceConfigKey (mget m ''type'') k'))"
    using f by (simp add: containerValidDevices_body_def)
  then show ?thesis by (rule exI)
qed

lemma loop_member_rejected:
  assumes "(name, m) \<in> set devs" and "\<And>paths. isl (containerValidDevices_body h expanded paths name m)"
  shows "containerValidDevices_loop h expanded paths devs \<noteq> None"
  using assms
proof (induction devs arbitrary: paths)
  case Nil
  then show ?case by simp
next
  case (Cons d devs)
  obtain n' m' where d: "d = (n', m')" by (cases d)
  show ?case
  proof (cases "containerValidDevices_body h expanded paths n' m'")
    case (Inl e)
    then show ?thesis by (simp add: d)
  next
    case (Inr p')
    have "\<not> isl (containerValidDevices_body h expanded paths n' m')"
      using Inr by simp
    with Cons.prems(2)[of paths] have "(name, m) \<noteq> (n', m')"
      by (metis prod.inject)
    with Cons.prems(1) have "(name, m) \<in> set devs" unfolding d by (metis set_ConsD)
    with Cons.IH Cons.prems(2) have "containerValidDevices_loop h expanded p' devs \<noteq> None"
      by blast
    with Inr show ?thesis by (simp add: d)
  qed
qed

lemma find_invalid_None:
  "\<forall>k \<in> fst ` set m. containerValidDeviceConfigKey t k \<Longrightarrow>
   find (\<lambda>k. \<not> containerValidDeviceConfigKey t k) (map fst m) = None"
  by (auto simp: find_None_iff)

lemma body_typed:
  assumes "mget m ''type'' = t"
    and "t \<in> set deviceTypes"
    and "find (\<lambda>k. \<not> containerValidDeviceConfigKey t k) (map fst m) = None"
  shows "containerValidDevices_body h expanded paths name m =
    (if t = ''nic'' then (case nicChecks m of Some err \<Rightarrow> Inl err | None \<Rightarrow> Inr paths)
     else if t = ''infiniband'' then (case infinibandChecks m of Some err \<Rightarrow> Inl err | None \<Rightarrow> Inr paths)
     else if t = ''disk'' then
       (if \<not> expanded \<and> mget m ''path'' \<in> set paths then Inl (ErrDuplicateDiskPath (mget m ''path''))
        else (case diskChecks h m of Some err \<Rightarrow> Inl err
              | None \<Rightarrow> Inr (if expanded then paths else paths @ [mget m ''path''])))
     else if t = ''unix-char'' \<or> t = ''unix-block'' then
       (case unixChecks h m of Some err \<Rightarrow> Inl err | None \<Rightarrow> Inr paths)
     else if t = ''usb'' then (if mget m ''vendorid'' = [] then Inl ErrUsbVendorid else Inr paths)
     else if t = ''gpu'' then (case gpuChecks h m of Some err \<Rightarrow> Inl err | None \<Rightarrow> Inr paths)
     else if t = ''proxy'' then (case proxyChecks m of Some err \<Rightarrow> Inl err | None \<Rightarrow> Inr paths)
     else Inr paths)"
proof -
  from assms(2) have d: "t = ''disk'' \<or> t = ''gpu'' \<or> t = ''infiniband'' \<or> t = ''nic'' \<or> t = ''none'' \<or> t = ''proxy'' \<or> t = ''unix-block'' \<or> t = ''unix-char'' \<or> t = ''usb''"
    by (simp add: deviceTypes_def)
  show ?thesis using d
  proof (elim disjE)
    assume c: "t = ''disk''"
    have ty: "mget m ''type'' = ''disk''" using assms(1) c by simp
    have fi: "find (\<lambda>k. \<not> containerValidDeviceConfigKey ''disk'' k) (map fst m) = None"
      using assms(3) c by simp
    show ?thesis unfolding c containerValidDevices_body_def ty
      by (simp add: fi StringInSlice_def split: option.split)
  next
    assume c: "t = ''gpu''"
    have ty: "mget m ''type'' = ''gpu''" using assms(1) c by simp
    have fi: "find (\<lambda>k. \<not> containerValidDeviceConfigKey ''gpu'' k) (map fst m) = None"
      using assms(3) c by simp
    show ?thesis unfolding c containerValidDevices_body_def ty
      by (simp add: fi StringInSlice_def)
  next
    assume c: "t = ''infiniband''"
    have ty: "mget m ''type'' = ''infiniband''" using assms(1) c by simp
    have fi: "find (\<lambda>k. \<not> containerValidDeviceConfigKey ''infiniband'' k) (map fst m) = None"
      using assms(3) c by simp
    show ?thesis unfolding c containerValidDevices_body_def ty
      by (simp add: fi StringInSlice_def)
  next
    assume c: "t = ''nic''"
    have ty: "mget m ''type'' = ''nic''" using assms(1) c by simp
    have fi: "find (\<lambda>k. \<not> containerValidDeviceConfigKey ''nic'' k) (map fst m) = None"
      using assms(3) c by simp
    show ?thesis unfolding c containerValidDevices_body_def ty
      by (simp add: fi StringInSlice_def)
  next
    assume c: "t = ''none''"
    have ty: "mget m ''type'' = ''none''" using assms(1) c by simp
    have fi: "find (\<lambda>k. \<not> containerValidDeviceConfigKey ''none'' k) (map fst m) = None"
      using assms(3) c by simp
    show ?thesis unfolding c containerValidDevices_body_def ty
      by (simp add: fi StringInSlice_def)
  next
    assume c: "t = ''proxy''"
    have ty: "mget m ''type'' = ''proxy''" using assms(1) c by simp
    have fi: "find (\<lambda>k. \<not> containerValidDeviceConfigKey ''proxy'' k) (map fst m) = None"
      using assms(3) c by simp
    show ?thesis unfolding c containerValidDevices_body_def ty
      by (simp add: fi StringInSlice_def)
  next
    assume c: "t = ''unix-block''"
    have ty: "mget m ''type'' = ''unix-block''" using assms(1) c by simp
    have fi: "find (\<lambda>k. \<not> containerValidDeviceConfigKey ''unix-block'' k) (map fst m) = None"
      using assms(3) c by simp
    show ?thesis unfolding c containerValidDevices_body_def ty
      by (simp add: fi StringInSlice_def)
  next
    assume c: "t = ''unix-char''"
    have ty: "mget m ''type'' = ''unix-char''" using assms(1) c by simp
    have fi: "find (\<lambda>k. \<not> containerValidDeviceConfigKey ''unix-char'' k) (map fst m) = None"
      using assms(3) c by simp
    show ?thesis unfolding c containerValidDevices_body_def ty
      by (simp add: fi StringInSlice_def)
  next
    assume c: "t = ''usb''"
    have ty: "mget m ''type'' = ''usb''" using assms(1) c by simp
    have fi: "find (\<lambda>k. \<not> containerValidDeviceConfigKey ''usb'' k) (map fst m) = None"
      using assms(3) c by simp
    show ?thesis unfolding c containerValidDevices_body_def ty
      by (simp add: fi StringInSlice_def)
  qed
qed

lemma body_untyped:
  assumes "mget m ''type'' \<notin> set deviceTypes \<or>
           find (\<lambda>k. \<not> containerValidDeviceConfigKey (mget m ''type'') k) (map fst m) \<noteq> None"
  shows "isl (containerValidDevices_body h expanded paths name m)"
  using assms
  by (auto simp: containerValidDevices_body_def StringInSlice_def deviceTypes_def)

lemma body_cases:
  obtains (err) e where "containerValidDevices_body h expanded paths name m = Inl e"
  | (keep) "containerValidDevices_body h expanded paths name m = Inr paths"
           "mget m ''type'' \<noteq> ''disk'' \<or> expanded"
  | (disk) "mget m ''type'' = ''disk''" "\<not> expanded" "mget m ''path'' \<notin> set paths"
           "containerValidDevices_body h expanded paths name m = Inr (paths @ [mget m ''path''])"
proof (cases "mget m ''type'' \<in> set deviceTypes \<and>
           find (\<lambda>k. \<not> containerValidDeviceConfigKey (mget m ''type'') k) (map fst m) = None")
  case False
  then have "mget m ''type'' \<notin> set deviceTypes \<or>
           find (\<lambda>k. \<not> containerValidDeviceConfigKey (mget m ''type'') k) (map fst m) \<noteq> None"
    by simp
  then have "isl (containerValidDevices_body h expanded paths name m)"
    by (rule body_untyped)
  then show ?thesis using err by (auto simp: isl_def)
next
  case True
  then have eq: "containerValidDevices_body h expanded paths name m =
    (if mget m ''type'' = ''nic'' then (case nicChecks m of Some err \<Rightarrow> Inl err | None \<Rightarrow> Inr paths)
     else if mget m ''type'' = ''infiniband'' then (case infinibandChecks m of Some err \<Rightarrow> Inl err | None \<Rightarrow> Inr paths)
     else if mget m ''type'' = ''disk'' then
       (if \<not> expanded \<and> mget m ''path'' \<in> set paths then Inl (ErrDuplicateDiskPath (mget m ''path''))
        else (case diskChecks h m of Some err \<Rightarrow> Inl err
              | None \<Rightarrow> Inr (if expanded then paths else paths @ [mget m ''path''])))
     else if mget m ''type'' = ''unix-char'' \<or> mget m ''type'' = ''unix-block'' then
       (case unixChecks h m of Some err \<Rightarrow> Inl err | None \<Rightarrow> Inr paths)
     else if mget m ''type'' = ''usb'' then (if mget m ''vendorid'' = [] then Inl ErrUsbVendorid else Inr paths)
     else if mget m ''type'' = ''gpu'' then (case gpuChecks h m of Some err \<Rightarrow> Inl err | None \<Rightarrow> Inr paths)
     else if mget m ''type'' = ''proxy'' then (case proxyChecks m of Some err \<Rightarrow> Inl err | None \<Rightarrow> Inr paths)
     else Inr paths)"
    by (intro body_typed) simp_all
  show ?thesis
  proof (cases "containerValidDevices_body h expanded paths name m")
    case (Inl e)
    then show ?thesis by (rule err)
  next
    case (Inr p')
    show ?thesis
    proof (cases "mget m ''type'' = ''disk'' \<and> \<not> expanded")
      case True
      with Inr eq have "mget m ''path'' \<notin> set paths" "p' = paths @ [mget m ''path'']"
        by (auto split: if_splits option.splits)
      with True Inr show ?thesis by (intro disk) simp_all
    next
      case False
      with Inr eq have "p' = paths"
        by (auto split: if_splits option.splits)
      with False Inr show ?thesis by (intro keep) auto
    qed
  qed
qed

lemma body_paths_mono:
  "containerValidDevices_body h expanded paths name m = Inr paths' \<Longrightarrow> set paths \<subseteq> set paths'"
  by (rule body_cases[of h expanded paths name m]) auto

lemma body_paths_upper:
  "containerValidDevices_body h expanded paths name m = Inr paths' \<Longrightarrow>
   set paths' \<subseteq> set paths \<union> (if mget m ''type'' = ''disk'' then {mget m ''path''} else {})"
  by (rule body_cases[of h expanded paths name m]) auto

lemma body_disk_path_added:
  "containerValidDevices_body h False paths name m = Inr paths' \<Longrightarrow> mget m ''type'' = ''disk'' \<Longrightarrow>
   mget m ''path'' \<in> set paths'"
  by (rule body_cases[of h False paths name m]) auto

lemma body_disk:
  assumes "mget m ''type'' = ''disk''" "\<forall>k \<in> fst ` set m. containerValidDeviceConfigKey ''disk'' k"
  shows "containerValidDevices_body h expanded paths name m =
       (if \<not> expanded \<and> mget m ''path'' \<in> set paths then Inl (ErrDuplicateDiskPath (mget m ''path''))
        else (case diskChecks h m of Some err \<Rightarrow> Inl err
              | None \<Rightarrow> Inr (if expanded then paths else paths @ [mget m ''path''])))"
proof -
  have "containerValidDevices_body h expanded paths name m =
    (if ''disk'' = ''nic'' then (case nicChecks m of Some err \<Rightarrow> Inl err | None \<Rightarrow> Inr paths)
     else if ''disk'' = ''infiniband'' then (case infinibandChecks m of Some err \<Rightarrow> Inl err | None \<Rightarrow> Inr paths)
     else if ''disk'' = ''disk'' then
       (if \<not> expanded \<and> mget m ''path'' \<in> set paths then Inl (ErrDuplicateDiskPath (mget m ''path''))
        else (case diskChecks h m of Some err \<Rightarrow> Inl err
              | None \<Rightarrow> Inr (if expanded then paths else paths @ [mget m ''path''])))
     else if ''disk'' = ''unix-char'' \<or> ''disk'' = ''unix-block'' then
       (case unixChecks h m of Some err \<Rightarrow> Inl err | None \<Rightarrow> Inr paths)
     else if ''disk'' = ''usb'' then (if mget m ''vendorid'' = [] then Inl ErrUsbVendorid else Inr paths)
     else if ''disk'' = ''gpu'' then (case gpuChecks h m of Some err \<Rightarrow> Inl err | None \<Rightarrow> Inr paths)
     else if ''disk'' = ''proxy'' then (case proxyChecks m of Some err \<Rightarrow> Inl err | None \<Rightarrow> Inr paths)
     else Inr paths)"
    using assms(1) by (rule body_typed) (simp_all add: deviceTypes_def find_invalid_None assms(2))
  then show ?thesis by simp
qed

lemma loop_append_Some:
  "containerValidDevices_loop h expanded paths pre = Some err \<Longrightarrow>
   containerValidDevices_loop h expanded paths (pre @ rest) = Some err"
  by (induction pre arbitrary: paths) (auto split: sum.splits)

lemma valid_loop_reject:
  "containerValidDevices_loop h expanded [] devs \<noteq> None \<Longrightarrow>
   containerValidDevices h (Some devs) profile expanded \<noteq> None"
  by (cases "containerValidDevices_loop h expanded [] devs") (simp_all add: containerValidDevices_def)

lemma valid_loop_Some:
  "containerValidDevices_loop h expanded [] devs = Some err \<Longrightarrow>
   containerValidDevices h (Some devs) profile expanded = Some err"
  by (simp add: containerValidDevices_def)


lemma loop_prefix_passes:
  "containerValidDevices_loop h expanded paths pre = None \<Longrightarrow>
   \<exists>paths'. set paths \<subseteq> set paths' \<and>
     set paths' \<subseteq> set paths \<union> {mget m' ''path'' | n' m'. (n', m') \<in> set pre \<and> mget m' ''type'' = ''disk''} \<and>
     (\<forall>rest. containerValidDevices_loop h expanded paths (pre @ rest) =
             containerValidDevices_loop h expanded paths' rest)"
proof (induction pre arbitrary: paths)
  case Nil
  then show ?case by auto
next
  case (Cons d pre)
  obtain n' m' where d: "d = (n', m')" by (cases d)
  from Cons.prems obtain p1 where b: "containerValidDevices_body h expanded paths n' m' = Inr p1"
    and l: "containerValidDevices_loop h expanded p1 pre = None"
    by (auto simp: d split: sum.splits)
  from Cons.IH[OF l] obtain p2 where p2: "set p1 \<subseteq> set p2"
    "set p2 \<subseteq> set p1 \<union> {mget m' ''path'' | n' m'. (n', m') \<in> set pre \<and> mget m' ''type'' = ''disk''}"
    "\<forall>rest. containerValidDevices_loop h expanded p1 (pre @ rest) =
             containerValidDevices_loop h expanded p2 rest" by blast
  have lo: "set paths \<subseteq> set p1" using b by (rule body_paths_mono)
  have up: "set p1 \<subseteq> set paths \<union> (if mget m' ''type'' = ''disk'' then {mget m' ''path''} else {})"
    using b by (rule body_paths_upper)
  have 1: "set paths \<subseteq> set p2" using lo p2(1) by blast
  have 2: "set p2 \<subseteq> set paths \<union> {mget m'' ''path'' | n'' m''. (n'', m'') \<in> set (d # pre) \<and> mget m'' ''type'' = ''disk''}"
  proof
    fix x assume "x \<in> set p2"
    with p2(2) consider "x \<in> set p1"
      | "x \<in> {mget m' ''path'' | n' m'. (n', m') \<in> set pre \<and> mget m' ''type'' = ''disk''}" by blast
    then show "x \<in> set paths \<union> {mget m'' ''path'' | n'' m''. (n'', m'') \<in> set (d # pre) \<and> mget m'' ''type'' = ''disk''}"
    proof cases
      case 1
      with up have "x \<in> set paths \<or> (mget m' ''type'' = ''disk'' \<and> x = mget m' ''path'')"
        by (auto split: if_splits)
      then show ?thesis unfolding d by auto
    next
      case 2
      then show ?thesis by auto
    qed
  qed
  have 3: "\<forall>rest. containerValidDevices_loop h expanded paths ((d # pre) @ rest) =
             containerValidDevices_loop h expanded p2 rest"
    using b p2(3) by (simp add: d)
  from 1 2 3 show ?case by blast
qed

lemma loop_first_failure:
  assumes "containerValidDevices_loop h expanded [] pre = None"
    and "\<And>paths. set paths \<subseteq> {mget m' ''path'' | n' m'. (n', m') \<in> set pre \<and> mget m' ''type'' = ''disk''}
           \<Longrightarrow> containerValidDevices_body h expanded paths name m = Inl err"
  shows "containerValidDevices_loop h expanded [] (pre @ (name, m) # post) = Some err"
proof -
  from loop_prefix_passes[OF assms(1)] obtain p where
    p: "set p \<subseteq> set [] \<union> {mget m' ''path'' | n' m'. (n', m') \<in> set pre \<and> mget m' ''type'' = ''disk''}"
       "\<forall>rest. containerValidDevices_loop h expanded [] (pre @ rest) =
             containerValidDevices_loop h expanded p rest" by blast
  from p(1) have "containerValidDevices_body h expanded p name m = Inl err"
    by (intro assms(2)) simp
  with p(2) show ?thesis by simp
qed

text \<open>
  Claim C6, as the code has it.  Take any device map and a device in it whose type is
  one of the nine device types and which carries a key, other than \<open>type\<close>, that the
  spec's key table does not allow for that type.  Then \<open>containerValidDevices\<close>
  rejects the whole map.  The error is the invalid-device-configuration-key error for
  that device's type whenever every device visited before it passes its checks; an
  earlier device that fails is reported instead.
\<close>

theorem containerValidDevices_invalid_key:
  assumes "(name, m) \<in> set devs" and "mget m ''type'' \<in> set deviceTypes"
    and "k \<in> fst ` set m" and "k \<noteq> ''type''" and "k \<notin> set (allowedKeys (mget m ''type''))"
  shows "containerValidDevices h (Some devs) profile expanded \<noteq> None \<and>
    (\<forall>pre post. devs = pre @ (name, m) # post \<and>
                containerValidDevices_loop h expanded [] pre = None \<longrightarrow>
       (\<exists>k'. k' \<in> fst ` set m \<and> k' \<noteq> ''type'' \<and> k' \<notin> set (allowedKeys (mget m ''type'')) \<and>
            containerValidDevices h (Some devs) profile expanded =
              Some (ErrInvalidDeviceConfigKey (mget m ''type'') k')))"
proof -
  have bad: "\<not> containerValidDeviceConfigKey (mget m ''type'') k"
    using assms(4,5) by (simp add: key_table)
  from body_invalid_key[OF assms(2,3) bad, of h expanded]
  obtain k' where k': "k' \<in> fst ` set m" "\<not> containerValidDeviceConfigKey (mget m ''type'') k'"
    and body: "\<And>paths. containerValidDevices_body h expanded paths name m =
                 Inl (ErrInvalidDeviceConfigKey (mget m ''type'') k')"
    by blast
  have "containerValidDevices_loop h expanded [] devs \<noteq> None"
    using assms(1) by (rule loop_member_rejected) (simp add: body)
  then have 1: "containerValidDevices h (Some devs) profile expanded \<noteq> None"
    by (rule valid_loop_reject)
  have 2: "containerValidDevices h (Some devs) profile expanded =
              Some (ErrInvalidDeviceConfigKey (mget m ''type'') k')"
    if "devs = pre @ (name, m) # post" "containerValidDevices_loop h expanded [] pre = None"
    for pre post
  proof -
    have "containerValidDevices_loop h expanded [] (pre @ (name, m) # post) =
            Some (ErrInvalidDeviceConfigKey (mget m ''type'') k')"
      using that(2) by (rule loop_first_failure) (rule body)
    then show ?thesis unfolding that(1) by (rule valid_loop_Some)
  qed
  from k' have k'': "k' \<noteq> ''type''" "k' \<notin> set (allowedKeys (mget m ''type''))"
    by (auto simp: key_table)
  from 1 2 k'(1) k'' show ?thesis by blast
qed


lemma body_disk_isl:
  assumes "mget m ''type'' = ''disk''" "diskChecks h m \<noteq> None"
  shows "isl (containerValidDevices_body h expanded paths name m)"
proof (cases "find (\<lambda>k. \<not> containerValidDeviceConfigKey ''disk'' k) (map fst m) = None")
  case True
  have "''disk'' \<in> set deviceTypes" by (simp add: deviceTypes_def)
  from body_typed[OF assms(1) this True, of h expanded paths name] assms(2)
  show ?thesis by auto
next
  case False
  then show ?thesis using assms(1) by (intro body_untyped) simp
qed

lemma body_disk_first_failure:
  assumes "mget m ''type'' = ''disk''" "\<forall>k \<in> fst ` set m. containerValidDeviceConfigKey ''disk'' k"
    and "expanded \<or> mget m ''path'' \<notin> set paths" and "diskChecks h m = Some err"
  shows "containerValidDevices_body h expanded paths name m = Inl err"
  using assms(3,4) by (auto simp: body_disk[OF assms(1,2)])

lemma loop_disk_last:
  assumes pre: "containerValidDevices_loop h expanded [] pre = None"
    and ty: "mget m ''type'' = ''disk''"
    and keys: "\<forall>k \<in> fst ` set m. containerValidDeviceConfigKey ''disk'' k"
    and fresh: "expanded \<or> (\<forall>(n', m') \<in> set pre. mget m' ''type'' = ''disk'' \<longrightarrow>
                                                  mget m' ''path'' \<noteq> mget m ''path'')"
  shows "containerValidDevices_loop h expanded [] (pre @ [(name, m)]) = diskChecks h m"
proof -
  from loop_prefix_passes[OF pre] obtain p where
    p: "set p \<subseteq> set [] \<union> {mget m' ''path'' | n' m'. (n', m') \<in> set pre \<and> mget m' ''type'' = ''disk''}"
       "\<forall>rest. containerValidDevices_loop h expanded [] (pre @ rest) =
             containerValidDevices_loop h expanded p rest" by blast
  have nd: "expanded \<or> mget m ''path'' \<notin> set p"
    using fresh p(1) by fastforce
  have "containerValidDevices_loop h expanded p [(name, m)] = diskChecks h m"
    using nd by (cases "diskChecks h m") (auto simp: body_disk[OF ty keys])
  with p(2) show ?thesis by simp
qed


text \<open>
  Claim C7, as the code has it.  For a disk device of a device map: with path \<open>/\<close> and
  a non-empty source the source checks give the root-disk-source error and the map is
  rejected; with path \<open>/\<close> and no source neither source check fires; with a path other
  than \<open>/\<close> and no source the map is rejected, and the source checks give the
  missing-source error when the path is not empty; an empty path is reported as a
  missing path.  When the devices visited before pass, the device's keys are valid disk
  keys and the duplicate-path check does not fire, these are the errors of the whole
  function: root-disk-source, missing-source and missing-path; and when the device is
  the last one visited, the loop returns exactly what the disk checks return, so that a
  root disk without source gets neither source error from the function.
\<close>

theorem containerValidDevices_disk_source:
  assumes "(name, m) \<in> set devs" and "mget m ''type'' = ''disk''"
  shows "(mget m ''path'' = ''/'' \<and> mget m ''source'' \<noteq> [] \<longrightarrow>
            diskChecks h m = Some ErrRootDiskSource \<and>
            containerValidDevices h (Some devs) profile expanded \<noteq> None)
       \<and> (mget m ''path'' = ''/'' \<and> mget m ''source'' = [] \<longrightarrow>
            diskChecks h m \<noteq> Some ErrDiskMissingSource \<and> diskChecks h m \<noteq> Some ErrRootDiskSource)
       \<and> (mget m ''path'' \<noteq> ''/'' \<and> mget m ''source'' = [] \<longrightarrow>
            containerValidDevices h (Some devs) profile expanded \<noteq> None \<and>
            (mget m ''path'' \<noteq> [] \<longrightarrow> diskChecks h m = Some ErrDiskMissingSource))
       \<and> (mget m ''path'' = [] \<longrightarrow>
            diskChecks h m = Some ErrDiskMissingPath \<and>
            containerValidDevices h (Some devs) profile expanded \<noteq> None)
       \<and> (\<forall>pre post err.
             devs = pre @ (name, m) # post \<and>
             containerValidDevices_loop h expanded [] pre = None \<and>
             (\<forall>k \<in> fst ` set m. containerValidDeviceConfigKey ''disk'' k) \<and>
             (expanded \<or> (\<forall>(n', m') \<in> set pre. mget m' ''type'' = ''disk'' \<longrightarrow>
                                                  mget m' ''path'' \<noteq> mget m ''path'')) \<and>
             diskChecks h m = Some err \<longrightarrow>
             containerValidDevices h (Some devs) profile expanded = Some err)
       \<and> (\<forall>pre post.
             devs = pre @ (name, m) # post \<and>
             containerValidDevices_loop h expanded [] pre = None \<and>
             (\<forall>k \<in> fst ` set m. containerValidDeviceConfigKey ''disk'' k) \<and>
             (expanded \<or> (\<forall>(n', m') \<in> set pre. mget m' ''type'' = ''disk'' \<longrightarrow>
                                                  mget m' ''path'' \<noteq> mget m ''path'')) \<longrightarrow>
             (mget m ''path'' = ''/'' \<and> mget m ''source'' \<noteq> [] \<longrightarrow>
                containerValidDevices h (Some devs) profile expanded = Some ErrRootDiskSource) \<and>
             (mget m ''path'' \<noteq> ''/'' \<and> mget m ''path'' \<noteq> [] \<and> mget m ''source'' = [] \<longrightarrow>
                containerValidDevices h (Some devs) profile expanded = Some ErrDiskMissingSource) \<and>
             (mget m ''path'' = [] \<longrightarrow>
                containerValidDevices h (Some devs) profile expanded = Some ErrDiskMissingPath))
       \<and> (\<forall>pre.
             devs = pre @ [(name, m)] \<and>
             containerValidDevices_loop h expanded [] pre = None \<and>
             (\<forall>k \<in> fst ` set m. containerValidDeviceConfigKey ''disk'' k) \<and>
             (expanded \<or> (\<forall>(n', m') \<in> set pre. mget m' ''type'' = ''disk'' \<longrightarrow>
                                                  mget m' ''path'' \<noteq> mget m ''path'')) \<longrightarrow>
             containerValidDevices_loop h expanded [] devs = diskChecks h m \<and>
             (mget m ''path'' = ''/'' \<and> mget m ''source'' = [] \<longrightarrow>
                containerValidDevices h (Some devs) profile expanded \<noteq> Some ErrDiskMissingSource \<and>
                containerValidDevices h (Some devs) profile expanded \<noteq> Some ErrRootDiskSource))"
proof -
  have rej: "containerValidDevices h (Some devs) profile expanded \<noteq> None" if "diskChecks h m \<noteq> None"
  proof -
    have "containerValidDevices_loop h expanded [] devs \<noteq> None"
      using assms(1) by (rule loop_member_rejected) (rule body_disk_isl[OF assms(2) that])
    then show ?thesis by (rule valid_loop_reject)
  qed
  have 1: "diskChecks h m = Some ErrRootDiskSource"
    if "mget m ''path'' = ''/''" "mget m ''source'' \<noteq> []"
    using that by (simp add: diskChecks_def)
  have 2: "diskChecks h m \<noteq> Some ErrDiskMissingSource \<and> diskChecks h m \<noteq> Some ErrRootDiskSource"
    if "mget m ''path'' = ''/''" "mget m ''source'' = []"
    using that by (simp add: diskChecks_def)
  have 3: "diskChecks h m \<noteq> None" if "mget m ''path'' \<noteq> ''/''" "mget m ''source'' = []"
    using that by (simp add: diskChecks_def)
  have 4: "diskChecks h m = Some ErrDiskMissingSource"
    if "mget m ''path'' \<noteq> ''/''" "mget m ''source'' = []" "mget m ''path'' \<noteq> []"
    using that by (simp add: diskChecks_def)
  have 6: "diskChecks h m = Some ErrDiskMissingPath" if "mget m ''path'' = []"
    using that by (simp add: diskChecks_def)
  have 5: "containerValidDevices h (Some devs) profile expanded = Some err"
    if d: "devs = pre @ (name, m) # post"
      and pre: "containerValidDevices_loop h expanded [] pre = None"
      and keys: "\<forall>k \<in> fst ` set m. containerValidDeviceConfigKey ''disk'' k"
      and fresh: "expanded \<or> (\<forall>(n', m') \<in> set pre. mget m' ''type'' = ''disk'' \<longrightarrow>
                                                  mget m' ''path'' \<noteq> mget m ''path'')"
      and err: "diskChecks h m = Some err"
    for pre post err
  proof -
    have "containerValidDevices_loop h expanded [] (pre @ (name, m) # post) = Some err"
      using pre
    proof (rule loop_first_failure)
      fix paths
      assume sub: "set paths \<subseteq> {mget m' ''path'' | n' m'. (n', m') \<in> set pre \<and> mget m' ''type'' = ''disk''}"
      have "expanded \<or> mget m ''path'' \<notin> set paths"
        using fresh sub by fastforce
      then show "containerValidDevices_body h expanded paths name m = Inl err"
        using err by (intro body_disk_first_failure assms(2) keys)
    qed
    then show ?thesis unfolding d by (rule valid_loop_Some)
  qed
  have 7: "containerValidDevices_loop h expanded [] devs = diskChecks h m"
    if "devs = pre @ [(name, m)]" "containerValidDevices_loop h expanded [] pre = None"
       "\<forall>k \<in> fst ` set m. containerValidDeviceConfigKey ''disk'' k"
       "expanded \<or> (\<forall>(n', m') \<in> set pre. mget m' ''type'' = ''disk'' \<longrightarrow>
                                                  mget m' ''path'' \<noteq> mget m ''path'')"
    for pre
    unfolding that(1) using that(2) assms(2) that(3,4) by (rule loop_disk_last)
  have 8: "containerValidDevices h (Some devs) profile expanded \<noteq> Some ErrDiskMissingSource \<and>
           containerValidDevices h (Some devs) profile expanded \<noteq> Some ErrRootDiskSource"
    if l: "containerValidDevices_loop h expanded [] devs = diskChecks h m"
      and "mget m ''path'' = ''/''" "mget m ''source'' = []"
  proof -
    from 2[OF that(2,3)] l
    have "containerValidDevices_loop h expanded [] devs \<noteq> Some ErrDiskMissingSource"
         "containerValidDevices_loop h expanded [] devs \<noteq> Some ErrRootDiskSource"
      by simp_all
    then show ?thesis
      by (cases "containerValidDevices_loop h expanded [] devs"; cases "GetRootDiskDevice h devs")
         (simp_all add: containerValidDevices_def)
  qed
  show ?thesis
  proof (intro conjI impI allI)
    fix pre post err
    assume "devs = pre @ (name, m) # post \<and>
             containerValidDevices_loop h expanded [] pre = None \<and>
             (\<forall>k \<in> fst ` set m. containerValidDeviceConfigKey ''disk'' k) \<and>
             (expanded \<or> (\<forall>(n', m') \<in> set pre. mget m' ''type'' = ''disk'' \<longrightarrow>
                                                  mget m' ''path'' \<noteq> mget m ''path'')) \<and>
             diskChecks h m = Some err"
    then show "containerValidDevices h (Some devs) profile expanded = Some err"
      by (elim conjE) (rule 5)
  next
    fix pre post
    assume c: "devs = pre @ (name, m) # post \<and>
             containerValidDevices_loop h expanded [] pre = None \<and>
             (\<forall>k \<in> fst ` set m. containerValidDeviceConfigKey ''disk'' k) \<and>
             (expanded \<or> (\<forall>(n', m') \<in> set pre. mget m' ''type'' = ''disk'' \<longrightarrow>
                                                  mget m' ''path'' \<noteq> mget m ''path''))"
    {
      assume "mget m ''path'' = ''/'' \<and> mget m ''source'' \<noteq> []"
      then have "diskChecks h m = Some ErrRootDiskSource" by (elim conjE) (rule 1)
      with c show "containerValidDevices h (Some devs) profile expanded = Some ErrRootDiskSource"
        by (elim conjE) (rule 5)
    }
    {
      assume "mget m ''path'' \<noteq> ''/'' \<and> mget m ''path'' \<noteq> [] \<and> mget m ''source'' = []"
      then have "diskChecks h m = Some ErrDiskMissingSource" by (elim conjE) (rule 4)
      with c show "containerValidDevices h (Some devs) profile expanded = Some ErrDiskMissingSource"
        by (elim conjE) (rule 5)
    }
    {
      assume "mget m ''path'' = []"
      then have "diskChecks h m = Some ErrDiskMissingPath" by (rule 6)
      with c show "containerValidDevices h (Some devs) profile expanded = Some ErrDiskMissingPath"
        by (elim conjE) (rule 5)
    }
  next
    fix pre
    assume c: "devs = pre @ [(name, m)] \<and>
             containerValidDevices_loop h expanded [] pre = None \<and>
             (\<forall>k \<in> fst ` set m. containerValidDeviceConfigKey ''disk'' k) \<and>
             (expanded \<or> (\<forall>(n', m') \<in> set pre. mget m' ''type'' = ''disk'' \<longrightarrow>
                                                  mget m' ''path'' \<noteq> mget m ''path''))"
    then show l: "containerValidDevices_loop h expanded [] devs = diskChecks h m"
      by (elim conjE) (rule 7)
    {
      assume "mget m ''path'' = ''/'' \<and> mget m ''source'' = []"
      with l have "containerValidDevices h (Some devs) profile expanded \<noteq> Some ErrDiskMissingSource \<and>
           containerValidDevices h (Some devs) profile expanded \<noteq> Some ErrRootDiskSource"
        by (elim conjE) (rule 8)
      then show "containerValidDevices h (Some devs) profile expanded \<noteq> Some ErrDiskMissingSource"
        and "containerValidDevices h (Some devs) profile expanded \<noteq> Some ErrRootDiskSource"
        by simp_all
    }
  qed (use 1 2 3 4 6 rej in \<open>simp_all del: split_paired_All\<close>)
qed

lemma loop_prefix_None:
  assumes "containerValidDevices_loop h expanded paths (pre @ rest) = None"
  shows "containerValidDevices_loop h expanded paths pre = None"
proof (cases "containerValidDevices_loop h expanded paths pre")
  case (Some e)
  then have "containerValidDevices_loop h expanded paths (pre @ rest) = Some e"
    by (rule loop_append_Some)
  with assms show ?thesis by simp
qed simp

lemma loop_through_disk:
  assumes "containerValidDevices_loop h False paths (pre @ (n1, m1) # mid) = None"
    and "mget m1 ''type'' = ''disk''"
  shows "\<exists>p3. mget m1 ''path'' \<in> set p3 \<and>
     (\<forall>rest. containerValidDevices_loop h False paths (pre @ (n1, m1) # mid @ rest) =
             containerValidDevices_loop h False p3 rest)"
proof -
  have pre: "containerValidDevices_loop h False paths pre = None"
    using assms(1) by (rule loop_prefix_None)
  from loop_prefix_passes[OF pre] obtain p1 where
    p1: "\<forall>rest. containerValidDevices_loop h False paths (pre @ rest) =
             containerValidDevices_loop h False p1 rest" by blast
  with assms(1) have l1: "containerValidDevices_loop h False p1 ((n1, m1) # mid) = None" by simp
  then obtain p2 where b: "containerValidDevices_body h False p1 n1 m1 = Inr p2"
    and l2: "containerValidDevices_loop h False p2 mid = None"
    by (auto split: sum.splits)
  from b assms(2) have in2: "mget m1 ''path'' \<in> set p2" by (rule body_disk_path_added)
  from loop_prefix_passes[OF l2] obtain p3 where
    p3: "set p2 \<subseteq> set p3" "\<forall>rest. containerValidDevices_loop h False p2 (mid @ rest) =
             containerValidDevices_loop h False p3 rest" by blast
  have "containerValidDevices_loop h False paths (pre @ (n1, m1) # mid @ rest) =
        containerValidDevices_loop h False p3 rest" for rest
  proof -
    have "containerValidDevices_loop h False paths (pre @ (n1, m1) # mid @ rest) =
          containerValidDevices_loop h False p1 ((n1, m1) # mid @ rest)"
      using p1 by blast
    also have "\<dots> = containerValidDevices_loop h False p2 (mid @ rest)"
      using b by simp
    also have "\<dots> = containerValidDevices_loop h False p3 rest"
      using p3(2) by blast
    finally show ?thesis .
  qed
  moreover have "mget m1 ''path'' \<in> set p3" using in2 p3(1) by blast
  ultimately show ?thesis by blast
qed

lemma body_disk_duplicate_isl:
  assumes "mget m ''type'' = ''disk''" "mget m ''path'' \<in> set paths"
  shows "isl (containerValidDevices_body h False paths name m)"
proof (cases "find (\<lambda>k. \<not> containerValidDeviceConfigKey ''disk'' k) (map fst m) = None")
  case True
  have "''disk'' \<in> set deviceTypes" by (simp add: deviceTypes_def)
  from body_typed[OF assms(1) this True, of h False paths name] assms(2)
  show ?thesis by simp
next
  case False
  then show ?thesis using assms(1) by (intro body_untyped) simp
qed

lemma two_disks_rejected:
  assumes "mget m1 ''type'' = ''disk''" "mget m2 ''type'' = ''disk''"
    and "mget m1 ''path'' = mget m2 ''path''"
  shows "containerValidDevices_loop h False paths (pre @ (n1, m1) # mid @ (n2, m2) # post) \<noteq> None"
proof (cases "containerValidDevices_loop h False paths (pre @ (n1, m1) # mid)")
  case (Some e)
  then have "containerValidDevices_loop h False paths ((pre @ (n1, m1) # mid) @ (n2, m2) # post) = Some e"
    by (rule loop_append_Some)
  then show ?thesis by simp
next
  case None
  from loop_through_disk[OF None assms(1)] obtain p3 where
    p3: "mget m1 ''path'' \<in> set p3"
    "\<forall>rest. containerValidDevices_loop h False paths (pre @ (n1, m1) # mid @ rest) =
             containerValidDevices_loop h False p3 rest" by blast
  have "isl (containerValidDevices_body h False p3 n2 m2)"
    using assms(2) p3(1) assms(3) by (intro body_disk_duplicate_isl) simp_all
  then have "containerValidDevices_loop h False p3 ((n2, m2) # post) \<noteq> None"
    by (auto simp: isl_def)
  with p3(2) show ?thesis by simp
qed

lemma two_disks_duplicate_error:
  assumes "mget m1 ''type'' = ''disk''" "mget m2 ''type'' = ''disk''"
    and "mget m1 ''path'' = mget m2 ''path''"
    and "containerValidDevices_loop h False paths (pre @ (n1, m1) # mid) = None"
    and "\<forall>k \<in> fst ` set m2. containerValidDeviceConfigKey ''disk'' k"
  shows "containerValidDevices_loop h False paths (pre @ (n1, m1) # mid @ (n2, m2) # post) =
           Some (ErrDuplicateDiskPath (mget m2 ''path''))"
proof -
  from loop_through_disk[OF assms(4) assms(1)] obtain p3 where
    p3: "mget m1 ''path'' \<in> set p3"
    "\<forall>rest. containerValidDevices_loop h False paths (pre @ (n1, m1) # mid @ rest) =
             containerValidDevices_loop h False p3 rest" by blast
  have "containerValidDevices_body h False p3 n2 m2 = Inl (ErrDuplicateDiskPath (mget m2 ''path''))"
    using p3(1) assms(3) by (simp add: body_disk[OF assms(2) assms(5)])
  then have "containerValidDevices_loop h False p3 ((n2, m2) # post) =
               Some (ErrDuplicateDiskPath (mget m2 ''path''))"
    by simp
  with p3(2) show ?thesis by simp
qed

lemma if_SomeE:
  assumes "(if c then Some a else x) = Some e"
  obtains "e = a" | "x = Some e"
  using assms by (cases c) auto

lemma nic_not_dup: "nicChecks m = Some e \<Longrightarrow> e \<noteq> ErrDuplicateDiskPath p"
  unfolding nicChecks_def by (elim if_SomeE; simp)
lemma ib_not_dup: "infinibandChecks m = Some e \<Longrightarrow> e \<noteq> ErrDuplicateDiskPath p"
  unfolding infinibandChecks_def by (elim if_SomeE; simp)
lemma disk_not_dup: "diskChecks h m = Some e \<Longrightarrow> e \<noteq> ErrDuplicateDiskPath p"
  unfolding diskChecks_def by (elim if_SomeE; simp)
lemma gpu_not_dup: "gpuChecks h m = Some e \<Longrightarrow> e \<noteq> ErrDuplicateDiskPath p"
  unfolding gpuChecks_def by (elim if_SomeE; simp)
lemma proxy_not_dup: "proxyChecks m = Some e \<Longrightarrow> e \<noteq> ErrDuplicateDiskPath p"
  unfolding proxyChecks_def by (elim if_SomeE; simp)

lemma unix_not_dup: "unixChecks h m = Some e \<Longrightarrow> e \<noteq> ErrDuplicateDiskPath p"
  unfolding unixChecks_def Let_def
  apply (elim if_SomeE)
    apply simp_all
  apply (auto split: sum.split_asm if_split_asm)
  done

lemma body_untyped_eq:
  assumes "mget m ''type'' \<notin> set deviceTypes \<or>
           find (\<lambda>k. \<not> containerValidDeviceConfigKey (mget m ''type'') k) (map fst m) \<noteq> None"
  shows "containerValidDevices_body h expanded paths name m =
         containerValidDevices_body h expanded [] name m"
    and "containerValidDevices_body h expanded paths name m \<noteq> Inl (ErrDuplicateDiskPath p)"
proof -
  have "containerValidDevices_body h expanded paths name m =
         containerValidDevices_body h expanded [] name m \<and>
        containerValidDevices_body h expanded paths name m \<noteq> Inl (ErrDuplicateDiskPath p)"
  proof (cases "mget m ''type'' = [] \<or> mget m ''type'' \<notin> set deviceTypes")
    case True
    then show ?thesis
      by (auto simp: containerValidDevices_body_def StringInSlice_def deviceTypes_def)
  next
    case False
    with assms obtain k where
      "find (\<lambda>k. \<not> containerValidDeviceConfigKey (mget m ''type'') k) (map fst m) = Some k"
      by auto
    with False show ?thesis
      by (simp add: containerValidDevices_body_def StringInSlice_def deviceTypes_def)
  qed
  then show "containerValidDevices_body h expanded paths name m =
         containerValidDevices_body h expanded [] name m"
    and "containerValidDevices_body h expanded paths name m \<noteq> Inl (ErrDuplicateDiskPath p)"
    by blast+
qed

lemma body_expanded:
  "containerValidDevices_body h True paths name m =
     (case containerValidDevices_body h True [] name m of Inl e \<Rightarrow> Inl e | Inr x \<Rightarrow> Inr paths)"
  "containerValidDevices_body h True paths name m \<noteq> Inl (ErrDuplicateDiskPath p)"
proof -
  have "containerValidDevices_body h True paths name m =
     (case containerValidDevices_body h True [] name m of Inl e \<Rightarrow> Inl e | Inr x \<Rightarrow> Inr paths)
     \<and> containerValidDevices_body h True paths name m \<noteq> Inl (ErrDuplicateDiskPath p)"
  proof (cases "mget m ''type'' \<in> set deviceTypes \<and>
           find (\<lambda>k. \<not> containerValidDeviceConfigKey (mget m ''type'') k) (map fst m) = None")
    case False
    then have u: "mget m ''type'' \<notin> set deviceTypes \<or>
           find (\<lambda>k. \<not> containerValidDeviceConfigKey (mget m ''type'') k) (map fst m) \<noteq> None"
      by simp
    have "isl (containerValidDevices_body h True [] name m)" using u by (rule body_untyped)
    with body_untyped_eq[OF u, of h True paths name] show ?thesis
      by (auto simp: isl_def)
  next
    case True
    then have t: "mget m ''type'' \<in> set deviceTypes"
      and f: "find (\<lambda>k. \<not> containerValidDeviceConfigKey (mget m ''type'') k) (map fst m) = None"
      by simp_all
    from t have d: "mget m ''type'' = ''disk'' \<or> mget m ''type'' = ''gpu'' \<or> mget m ''type'' = ''infiniband'' \<or> mget m ''type'' = ''nic'' \<or> mget m ''type'' = ''none'' \<or> mget m ''type'' = ''proxy'' \<or> mget m ''type'' = ''unix-block'' \<or> mget m ''type'' = ''unix-char'' \<or> mget m ''type'' = ''usb''"
      by (simp add: deviceTypes_def)
    show ?thesis using d
    proof (elim disjE)
      assume c: "mget m ''type'' = ''disk''"
      show ?thesis
        using body_typed[OF c, of h True paths name] body_typed[OF c, of h True "[]" name] f c
          nic_not_dup[of m _ p] ib_not_dup[of m _ p] disk_not_dup[of h m _ p]
          unix_not_dup[of h m _ p] gpu_not_dup[of h m _ p] proxy_not_dup[of m _ p]
        by (auto simp: deviceTypes_def split: option.split)
    next
      assume c: "mget m ''type'' = ''gpu''"
      show ?thesis
        using body_typed[OF c, of h True paths name] body_typed[OF c, of h True "[]" name] f c
          nic_not_dup[of m _ p] ib_not_dup[of m _ p] disk_not_dup[of h m _ p]
          unix_not_dup[of h m _ p] gpu_not_dup[of h m _ p] proxy_not_dup[of m _ p]
        by (auto simp: deviceTypes_def split: option.split)
    next
      assume c: "mget m ''type'' = ''infiniband''"
      show ?thesis
        using body_typed[OF c, of h True paths name] body_typed[OF c, of h True "[]" name] f c
          nic_not_dup[of m _ p] ib_not_dup[of m _ p] disk_not_dup[of h m _ p]
          unix_not_dup[of h m _ p] gpu_not_dup[of h m _ p] proxy_not_dup[of m _ p]
        by (auto simp: deviceTypes_def split: option.split)
    next
      assume c: "mget m ''type'' = ''nic''"
      show ?thesis
        using body_typed[OF c, of h True paths name] body_typed[OF c, of h True "[]" name] f c
          nic_not_dup[of m _ p] ib_not_dup[of m _ p] disk_not_dup[of h m _ p]
          unix_not_dup[of h m _ p] gpu_not_dup[of h m _ p] proxy_not_dup[of m _ p]
        by (auto simp: deviceTypes_def split: option.split)
    next
      assume c: "mget m ''type'' = ''none''"
      show ?thesis
        using body_typed[OF c, of h True paths name] body_typed[OF c, of h True "[]" name] f c
          nic_not_dup[of m _ p] ib_not_dup[of m _ p] disk_not_dup[of h m _ p]
          unix_not_dup[of h m _ p] gpu_not_dup[of h m _ p] proxy_not_dup[of m _ p]
        by (auto simp: deviceTypes_def split: option.split)
    next
      assume c: "mget m ''type'' = ''proxy''"
      show ?thesis
        using body_typed[OF c, of h True paths name] body_typed[OF c, of h True "[]" name] f c
          nic_not_dup[of m _ p] ib_not_dup[of m _ p] disk_not_dup[of h m _ p]
          unix_not_dup[of h m _ p] gpu_not_dup[of h m _ p] proxy_not_dup[of m _ p]
        by (auto simp: deviceTypes_def split: option.split)
    next
      assume c: "mget m ''type'' = ''unix-block''"
      show ?thesis
        using body_typed[OF c, of h True paths name] body_typed[OF c, of h True "[]" name] f c
          nic_not_dup[of m _ p] ib_not_dup[of m _ p] disk_not_dup[of h m _ p]
          unix_not_dup[of h m _ p] gpu_not_dup[of h m _ p] proxy_not_dup[of m _ p]
        by (auto simp: deviceTypes_def split: option.split)
    next
      assume c: "mget m ''type'' = ''unix-char''"
      show ?thesis
        using body_typed[OF c, of h True paths name] body_typed[OF c, of h True "[]" name] f c
          nic_not_dup[of m _ p] ib_not_dup[of m _ p] disk_not_dup[of h m _ p]
          unix_not_dup[of h m _ p] gpu_not_dup[of h m _ p] proxy_not_dup[of m _ p]
        by (auto simp: deviceTypes_def split: option.split)
    next
      assume c: "mget m ''type'' = ''usb''"
      show ?thesis
        using body_typed[OF c, of h True paths name] body_typed[OF c, of h True "[]" name] f c
          nic_not_dup[of m _ p] ib_not_dup[of m _ p] disk_not_dup[of h m _ p]
          unix_not_dup[of h m _ p] gpu_not_dup[of h m _ p] proxy_not_dup[of m _ p]
        by (auto simp: deviceTypes_def split: option.split)
    qed
  qed
  then show "containerValidDevices_body h True paths name m =
     (case containerValidDevices_body h True [] name m of Inl e \<Rightarrow> Inl e | Inr x \<Rightarrow> Inr paths)"
    and "containerValidDevices_body h True paths name m \<noteq> Inl (ErrDuplicateDiskPath p)"
    by blast+
qed

lemma loop_expanded_paths:
  "containerValidDevices_loop h True paths devs = containerValidDevices_loop h True [] devs"
proof (induction devs arbitrary: paths)
  case Nil
  show ?case by simp
next
  case (Cons d devs)
  obtain n m where d: "d = (n, m)" by (cases d)
  show ?case
  proof (cases "containerValidDevices_body h True [] n m")
    case (Inl e)
    with body_expanded(1)[of h paths n m] show ?thesis by (simp add: d)
  next
    case (Inr b)
    with body_expanded(1)[of h paths n m]
    have "containerValidDevices_body h True paths n m = Inr paths" by simp
    then have "containerValidDevices_loop h True paths (d # devs) =
               containerValidDevices_loop h True paths devs" by (simp add: d)
    also have "\<dots> = containerValidDevices_loop h True [] devs" by (rule Cons.IH)
    also have "\<dots> = containerValidDevices_loop h True b devs" by (rule Cons.IH[symmetric])
    also have "\<dots> = containerValidDevices_loop h True [] (d # devs)" using Inr by (simp add: d)
    finally show ?thesis .
  qed
qed

lemma loop_expanded_not_duplicate:
  "containerValidDevices_loop h True paths devs \<noteq> Some (ErrDuplicateDiskPath p)"
proof (induction devs arbitrary: paths)
  case Nil
  show ?case by simp
next
  case (Cons d devs)
  obtain n m where d: "d = (n, m)" by (cases d)
  show ?case
    unfolding d using body_expanded(2)[of h paths n m p] Cons.IH
    by (cases "containerValidDevices_body h True paths n m") simp_all
qed

text \<open>
  Claim C10, as the code has it.  With \<open>expanded = false\<close>, a device map holding two
  disk devices with the same path is rejected; the error is the duplicate-path error
  when everything visited before the second of the two passes and the second has only
  valid disk keys.  With \<open>expanded = true\<close> the duplicate-path check is not applied:
  the duplicate-path error is never returned and the collected paths have no influence
  on the outcome.
\<close>

theorem containerValidDevices_duplicate_path:
  assumes "devs = pre @ (n1, m1) # mid @ (n2, m2) # post"
    and "mget m1 ''type'' = ''disk''" and "mget m2 ''type'' = ''disk''"
    and "mget m1 ''path'' = mget m2 ''path''"
  shows "containerValidDevices h (Some devs) profile False \<noteq> None
     \<and> (containerValidDevices_loop h False [] (pre @ (n1, m1) # mid) = None \<and>
        (\<forall>k \<in> fst ` set m2. containerValidDeviceConfigKey ''disk'' k) \<longrightarrow>
        containerValidDevices h (Some devs) profile False =
          Some (ErrDuplicateDiskPath (mget m2 ''path'')))
     \<and> (\<forall>p. containerValidDevices h (Some devs) profile True \<noteq> Some (ErrDuplicateDiskPath p))
     \<and> (\<forall>paths. containerValidDevices_loop h True paths devs =
                 containerValidDevices_loop h True [] devs)"
proof -
  have "containerValidDevices_loop h False [] devs \<noteq> None"
    unfolding assms(1) using assms(2-4) by (rule two_disks_rejected)
  then have 1: "containerValidDevices h (Some devs) profile False \<noteq> None"
    by (rule valid_loop_reject)
  have 2: "containerValidDevices h (Some devs) profile False =
          Some (ErrDuplicateDiskPath (mget m2 ''path''))"
    if "containerValidDevices_loop h False [] (pre @ (n1, m1) # mid) = None"
      "\<forall>k \<in> fst ` set m2. containerValidDeviceConfigKey ''disk'' k"
  proof -
    have "containerValidDevices_loop h False [] devs = Some (ErrDuplicateDiskPath (mget m2 ''path''))"
      unfolding assms(1) using assms(2-4) that by (rule two_disks_duplicate_error)
    then show ?thesis by (rule valid_loop_Some)
  qed
  have 3: "containerValidDevices h (Some devs) profile True \<noteq> Some (ErrDuplicateDiskPath p)" for p
    using loop_expanded_not_duplicate[of h "[]" devs p]
    by (cases "containerValidDevices_loop h True [] devs"; cases "GetRootDiskDevice h devs")
       (simp_all add: containerValidDevices_def)
  from 1 2 3 loop_expanded_paths show ?thesis by blast
qed

lemma key_not_exclusive: "containerValidConfigKey h k v \<noteq> Some ErrRawSeccompExclusive"
  unfolding containerValidConfigKey_def
  by (cases "ConfigKeyChecker h k"; simp split: option.split)

lemma keys_not_exclusive:
  "containerValidConfig_keys h profile config \<noteq> Some ErrRawSeccompExclusive"
proof (induction config)
  case Nil
  show ?case by simp
next
  case (Cons kv config)
  obtain k v where kv: "kv = (k, v)" by (cases kv)
  show ?case
    using Cons.IH key_not_exclusive[of h k v]
    by (cases "containerValidConfigKey h k v") (simp_all add: kv)
qed

lemma unpriv_not_exclusive: "allowedUnprivilegedOnlyMap h r \<noteq> Some ErrRawSeccompExclusive"
  unfolding allowedUnprivilegedOnlyMap_def by (cases "parseRawIdmap h r") simp_all


text \<open>
  Claim C3, as the code has it.  A config map that has the key \<open>raw.seccomp\<close> together
  with the key \<open>security.syscalls.whitelist\<close> or \<open>security.syscalls.blacklist\<close>
  (whatever their values), or together with \<open>security.syscalls.blacklist_default\<close> or
  \<open>security.syscalls.blacklist_compat\<close> set to a true value, is rejected by
  \<open>containerValidConfig\<close>; when every key passes its own check the error is the
  mutual-exclusion error.  Conversely the mutual-exclusion error is returned only then:
  a \<open>blacklist_default\<close> or \<open>blacklist_compat\<close> key whose value is not true does
  not trigger the exclusion.
\<close>

theorem containerValidConfig_raw_seccomp:
  "(mhas config ''raw.seccomp'' \<and>
     (mhas config ''security.syscalls.whitelist'' \<or> mhas config ''security.syscalls.blacklist'' \<or>
      IsTrue h (mget config ''security.syscalls.blacklist_default'') \<or>
      IsTrue h (mget config ''security.syscalls.blacklist_compat'')) \<longrightarrow>
    containerValidConfig h (Some config) profile expanded \<noteq> None \<and>
    (containerValidConfig_keys h profile config = None \<longrightarrow>
     containerValidConfig h (Some config) profile expanded = Some ErrRawSeccompExclusive))
   \<and>
   (containerValidConfig h (Some config) profile expanded = Some ErrRawSeccompExclusive \<longrightarrow>
    mhas config ''raw.seccomp'' \<and>
     (mhas config ''security.syscalls.whitelist'' \<or> mhas config ''security.syscalls.blacklist'' \<or>
      IsTrue h (mget config ''security.syscalls.blacklist_default'') \<or>
      IsTrue h (mget config ''security.syscalls.blacklist_compat'')))"
proof (intro conjI impI)
  assume t: "mhas config ''raw.seccomp'' \<and>
     (mhas config ''security.syscalls.whitelist'' \<or> mhas config ''security.syscalls.blacklist'' \<or>
      IsTrue h (mget config ''security.syscalls.blacklist_default'') \<or>
      IsTrue h (mget config ''security.syscalls.blacklist_compat''))"
  then show "containerValidConfig h (Some config) profile expanded \<noteq> None"
    by (cases "containerValidConfig_keys h profile config") (simp_all add: containerValidConfig_def)
  assume "containerValidConfig_keys h profile config = None"
  with t show "containerValidConfig h (Some config) profile expanded = Some ErrRawSeccompExclusive"
    by (simp add: containerValidConfig_def)
next
  assume r: "containerValidConfig h (Some config) profile expanded = Some ErrRawSeccompExclusive"
  show "mhas config ''raw.seccomp''"
  proof (rule ccontr)
    assume "\<not> mhas config ''raw.seccomp''"
    with r keys_not_exclusive[of h profile config]
      unpriv_not_exclusive[of h "mget config ''raw.idmap''"]
    show False
      by (cases "containerValidConfig_keys h profile config")
         (simp_all add: containerValidConfig_def Let_def split: if_split_asm option.split_asm)
  qed
  show "mhas config ''security.syscalls.whitelist'' \<or> mhas config ''security.syscalls.blacklist'' \<or>
      IsTrue h (mget config ''security.syscalls.blacklist_default'') \<or>
      IsTrue h (mget config ''security.syscalls.blacklist_compat'')"
  proof (rule ccontr)
    assume "\<not> (mhas config ''security.syscalls.whitelist'' \<or> mhas config ''security.syscalls.blacklist'' \<or>
      IsTrue h (mget config ''security.syscalls.blacklist_default'') \<or>
      IsTrue h (mget config ''security.syscalls.blacklist_compat''))"
    with r keys_not_exclusive[of h profile config]
      unpriv_not_exclusive[of h "mget config ''raw.idmap''"]
    show False
      by (cases "containerValidConfig_keys h profile config")
         (simp_all add: containerValidConfig_def Let_def split: if_split_asm option.split_asm)
  qed
qed

section \<open>Concrete instances on the example host\<close>

theorem containerValidConfig_raw_seccomp_counterexample:
  "mhas [(''raw.seccomp'', ''x''), (''security.syscalls.blacklist_default'', ''false'')] ''raw.seccomp'' \<and>
   mhas [(''raw.seccomp'', ''x''), (''security.syscalls.blacklist_default'', ''false'')]
        ''security.syscalls.blacklist_default'' \<and>
   containerValidConfig exampleHost
     (Some [(''raw.seccomp'', ''x''), (''security.syscalls.blacklist_default'', ''false'')])
     False False = None"
  by code_simp

theorem containerValidConfig_raw_seccomp_witness:
  "mhas [(''raw.seccomp'', ''x''), (''security.syscalls.blacklist'', ''mount'')] ''raw.seccomp'' \<and>
   mhas [(''raw.seccomp'', ''x''), (''security.syscalls.blacklist'', ''mount'')] ''security.syscalls.blacklist'' \<and>
   containerValidConfig_keys exampleHost False
     [(''raw.seccomp'', ''x''), (''security.syscalls.blacklist'', ''mount'')] = None \<and>
   containerValidConfig exampleHost
     (Some [(''raw.seccomp'', ''x''), (''security.syscalls.blacklist'', ''mount'')]) False False =
   Some ErrRawSeccompExclusive \<and>
   \<not> IsTrue exampleHost (mget [(''raw.seccomp'', ''x''), (''security.syscalls.blacklist_compat'', ''false'')]
                            ''security.syscalls.blacklist_compat'') \<and>
   containerValidConfig exampleHost
     (Some [(''raw.seccomp'', ''x''), (''security.syscalls.blacklist_compat'', ''false'')]) False False \<noteq>
   Some ErrRawSeccompExclusive"
proof -
  let ?c = "[(''raw.seccomp'', ''x''), (''security.syscalls.blacklist'', ''mount'')]"
  let ?d = "[(''raw.seccomp'', ''x''), (''security.syscalls.blacklist_compat'', ''false'')]"
  have a: "mhas ?c ''raw.seccomp''" by code_simp
  have b: "mhas ?c ''security.syscalls.blacklist''" by code_simp
  have k: "containerValidConfig_keys exampleHost False ?c = None" by code_simp
  from b have b': "mhas ?c ''security.syscalls.whitelist'' \<or> mhas ?c ''security.syscalls.blacklist'' \<or>
         IsTrue exampleHost (mget ?c ''security.syscalls.blacklist_default'') \<or>
         IsTrue exampleHost (mget ?c ''security.syscalls.blacklist_compat'')" by (intro disjI2 disjI1)
  note T = containerValidConfig_raw_seccomp[of ?c exampleHost False False]
  from T have "mhas ?c ''raw.seccomp'' \<and>
     (mhas ?c ''security.syscalls.whitelist'' \<or> mhas ?c ''security.syscalls.blacklist'' \<or>
      IsTrue exampleHost (mget ?c ''security.syscalls.blacklist_default'') \<or>
      IsTrue exampleHost (mget ?c ''security.syscalls.blacklist_compat'')) \<longrightarrow>
    containerValidConfig exampleHost (Some ?c) False False \<noteq> None \<and>
    (containerValidConfig_keys exampleHost False ?c = None \<longrightarrow>
     containerValidConfig exampleHost (Some ?c) False False = Some ErrRawSeccompExclusive)"
    by (rule conjunct1)
  from mp[OF this conjI[OF a b']]
  have "containerValidConfig_keys exampleHost False ?c = None \<longrightarrow>
          containerValidConfig exampleHost (Some ?c) False False = Some ErrRawSeccompExclusive"
    by (rule conjunct2)
  from mp[OF this k]
  have r: "containerValidConfig exampleHost (Some ?c) False False = Some ErrRawSeccompExclusive" .
  have n: "\<not> (mhas ?d ''raw.seccomp'' \<and>
     (mhas ?d ''security.syscalls.whitelist'' \<or> mhas ?d ''security.syscalls.blacklist'' \<or>
      IsTrue exampleHost (mget ?d ''security.syscalls.blacklist_default'') \<or>
      IsTrue exampleHost (mget ?d ''security.syscalls.blacklist_compat'')))" by code_simp
  have f: "\<not> IsTrue exampleHost (mget ?d ''security.syscalls.blacklist_compat'')" by code_simp
  from containerValidConfig_raw_seccomp[of ?d exampleHost False False]
  have I: "containerValidConfig exampleHost (Some ?d) False False = Some ErrRawSeccompExclusive \<longrightarrow>
    mhas ?d ''raw.seccomp'' \<and>
     (mhas ?d ''security.syscalls.whitelist'' \<or> mhas ?d ''security.syscalls.blacklist'' \<or>
      IsTrue exampleHost (mget ?d ''security.syscalls.blacklist_default'') \<or>
      IsTrue exampleHost (mget ?d ''security.syscalls.blacklist_compat''))"
    by (rule conjunct2)
  have r2: "containerValidConfig exampleHost (Some ?d) False False \<noteq> Some ErrRawSeccompExclusive"
  proof
    assume e: "containerValidConfig exampleHost (Some ?d) False False = Some ErrRawSeccompExclusive"
    from n mp[OF I e] show False by (rule notE)
  qed
  from a b k r f r2 show ?thesis by (intro conjI)
qed

theorem containerValidDevices_invalid_key_counterexample:
  "containerValidDevices exampleHost
     (Some [(''eth0'', [(''type'', ''nic'')]), (''x'', [(''type'', ''none''), (''foo'', ''bar'')])])
     False False = Some ErrMissingNicType"
  by code_simp

theorem containerValidDevices_disk_source_counterexample:
  "containerValidDevices exampleHost (Some [(''data'', [(''type'', ''disk''), (''path'', [])])]) False False =
     Some ErrDiskMissingPath \<and>
   containerValidDevices exampleHost
     (Some [(''data'', [(''type'', ''disk''), (''path'', ''/data''), (''bogus'', ''1'')])]) False False =
     Some (ErrInvalidDeviceConfigKey ''disk'' ''bogus'')"
  by code_simp

theorem containerValidDevices_disk_source_witness:
  "(''data'', [(''type'', ''disk''), (''path'', ''/data'')]) \<in> set [(''data'', [(''type'', ''disk''), (''path'', ''/data'')])] \<and>
   mget [(''type'', ''disk''), (''path'', ''/data'')] ''type'' = ''disk'' \<and>
   containerValidDevices exampleHost (Some [(''data'', [(''type'', ''disk''), (''path'', ''/data'')])]) False False =
     Some ErrDiskMissingSource"
proof -
  let ?m = "[(''type'', ''disk''), (''path'', ''/data'')]"
  have 1: "(''data'', ?m) \<in> set [(''data'', ?m)]" by simp
  have 2: "mget ?m ''type'' = ''disk''" by code_simp
  have p: "mget ?m ''path'' \<noteq> ''/'' \<and> mget ?m ''path'' \<noteq> [] \<and> mget ?m ''source'' = []"
    by code_simp
  have k: "\<forall>k \<in> fst ` set ?m. containerValidDeviceConfigKey ''disk'' k"
    by (simp add: containerValidDeviceConfigKey_def)
  note T = containerValidDevices_disk_source[OF 1 2, of exampleHost False False]
  from T have F: "\<forall>pre post.
             [(''data'', ?m)] = pre @ (''data'', ?m) # post \<and>
             containerValidDevices_loop exampleHost False [] pre = None \<and>
             (\<forall>k \<in> fst ` set ?m. containerValidDeviceConfigKey ''disk'' k) \<and>
             (False \<or> (\<forall>(n', m') \<in> set pre. mget m' ''type'' = ''disk'' \<longrightarrow>
                                                  mget m' ''path'' \<noteq> mget ?m ''path'')) \<longrightarrow>
             (mget ?m ''path'' = ''/'' \<and> mget ?m ''source'' \<noteq> [] \<longrightarrow>
                containerValidDevices exampleHost (Some [(''data'', ?m)]) False False = Some ErrRootDiskSource) \<and>
             (mget ?m ''path'' \<noteq> ''/'' \<and> mget ?m ''path'' \<noteq> [] \<and> mget ?m ''source'' = [] \<longrightarrow>
                containerValidDevices exampleHost (Some [(''data'', ?m)]) False False = Some ErrDiskMissingSource) \<and>
             (mget ?m ''path'' = [] \<longrightarrow>
                containerValidDevices exampleHost (Some [(''data'', ?m)]) False False = Some ErrDiskMissingPath)"
    by (elim conjE)
  have pre: "[(''data'', ?m)] = [] @ (''data'', ?m) # [] \<and>
             containerValidDevices_loop exampleHost False [] [] = None \<and>
             (\<forall>k \<in> fst ` set ?m. containerValidDeviceConfigKey ''disk'' k) \<and>
             (False \<or> (\<forall>(n', m') \<in> set ([]::devices). mget m' ''type'' = ''disk'' \<longrightarrow>
                                                  mget m' ''path'' \<noteq> mget ?m ''path''))"
    using k by simp
  from F have "[(''data'', ?m)] = [] @ (''data'', ?m) # [] \<and>
             containerValidDevices_loop exampleHost False [] [] = None \<and>
             (\<forall>k \<in> fst ` set ?m. containerValidDeviceConfigKey ''disk'' k) \<and>
             (False \<or> (\<forall>(n', m') \<in> set ([]::devices). mget m' ''type'' = ''disk'' \<longrightarrow>
                                                  mget m' ''path'' \<noteq> mget ?m ''path'')) \<longrightarrow>
             (mget ?m ''path'' = ''/'' \<and> mget ?m ''source'' \<noteq> [] \<longrightarrow>
                containerValidDevices exampleHost (Some [(''data'', ?m)]) False False = Some ErrRootDiskSource) \<and>
             (mget ?m ''path'' \<noteq> ''/'' \<and> mget ?m ''path'' \<noteq> [] \<and> mget ?m ''source'' = [] \<longrightarrow>
                containerValidDevices exampleHost (Some [(''data'', ?m)]) False False = Some ErrDiskMissingSource) \<and>
             (mget ?m ''path'' = [] \<longrightarrow>
                containerValidDevices exampleHost (Some [(''data'', ?m)]) False False = Some ErrDiskMissingPath)"
    by (elim allE[of _ "[]"])
  from mp[OF this pre]
  have "mget ?m ''path'' \<noteq> ''/'' \<and> mget ?m ''path'' \<noteq> [] \<and> mget ?m ''source'' = [] \<longrightarrow>
                containerValidDevices exampleHost (Some [(''data'', ?m)]) False False = Some ErrDiskMissingSource"
    by (elim conjE)
  from mp[OF this p]
  have "containerValidDevices exampleHost (Some [(''data'', ?m)]) False False = Some ErrDiskMissingSource" .
  with 1 2 show ?thesis by (intro conjI)
qed

theorem containerValidDevices_duplicate_path_counterexample:
  "containerValidDevices exampleHost
     (Some [(''a'', [(''type'', ''disk''), (''path'', ''/data'')]),
            (''b'', [(''type'', ''disk''), (''path'', ''/data'')])]) False False =
     Some ErrDiskMissingSource"
  by code_simp

theorem containerValidDevices_duplicate_path_witness:
  "mget [(''type'', ''disk''), (''path'', ''/data''), (''source'', ''/mnt/x'')] ''type'' = ''disk'' \<and>
   mget [(''type'', ''disk''), (''path'', ''/data''), (''source'', ''/mnt/y'')] ''type'' = ''disk'' \<and>
   mget [(''type'', ''disk''), (''path'', ''/data''), (''source'', ''/mnt/x'')] ''path'' =
   mget [(''type'', ''disk''), (''path'', ''/data''), (''source'', ''/mnt/y'')] ''path'' \<and>
   containerValidDevices exampleHost
     (Some [(''a'', [(''type'', ''disk''), (''path'', ''/data''), (''source'', ''/mnt/x'')]),
            (''b'', [(''type'', ''disk''), (''path'', ''/data''), (''source'', ''/mnt/y'')])]) False False =
     Some (ErrDuplicateDiskPath ''/data'')"
proof -
  let ?a = "[(''type'', ''disk''), (''path'', ''/data''), (''source'', ''/mnt/x'')]"
  let ?b = "[(''type'', ''disk''), (''path'', ''/data''), (''source'', ''/mnt/y'')]"
  have 0: "[(''a'', ?a), (''b'', ?b)] = [] @ (''a'', ?a) # [] @ (''b'', ?b) # []" by simp
  have 1: "mget ?a ''type'' = ''disk''" by code_simp
  have 2: "mget ?b ''type'' = ''disk''" by code_simp
  have 3: "mget ?a ''path'' = mget ?b ''path''" by code_simp
  have 4: "containerValidDevices_loop exampleHost False [] ([] @ (''a'', ?a) # []) = None"
    by code_simp
  have 5: "\<forall>k \<in> fst ` set ?b. containerValidDeviceConfigKey ''disk'' k"
    by (simp add: containerValidDeviceConfigKey_def)
  have 6: "mget ?b ''path'' = ''/data''" by code_simp
  from containerValidDevices_duplicate_path[OF 0 1 2 3, of exampleHost False]
  have "containerValidDevices_loop exampleHost False [] ([] @ (''a'', ?a) # []) = None \<and>
        (\<forall>k \<in> fst ` set ?b. containerValidDeviceConfigKey ''disk'' k) \<longrightarrow>
        containerValidDevices exampleHost (Some [(''a'', ?a), (''b'', ?b)]) False False =
          Some (ErrDuplicateDiskPath (mget ?b ''path''))"
    by (elim conjE)
  from this[rule_format, OF conjI[OF 4 5]]
  have "containerValidDevices exampleHost (Some [(''a'', ?a), (''b'', ?b)]) False False =
     Some (ErrDuplicateDiskPath ''/data'')" unfolding 6 .
  with 1 2 3 show ?thesis by (intro conjI)
qed

theorem containerValidDevices_invalid_key_witness:
  "(''x'', [(''type'', ''none''), (''foo'', ''bar'')]) \<in> set [(''x'', [(''type'', ''none''), (''foo'', ''bar'')])] \<and>
   mget [(''type'', ''none''), (''foo'', ''bar'')] ''type'' \<in> set deviceTypes \<and>
   ''foo'' \<notin> set (allowedKeys (mget [(''type'', ''none''), (''foo'', ''bar'')] ''type'')) \<and>
   containerValidDevices exampleHost (Some [(''x'', [(''type'', ''none''), (''foo'', ''bar'')])]) False False =
     Some (ErrInvalidDeviceConfigKey ''none'' ''foo'')"
proof -
  let ?m = "[(''type'', ''none''), (''foo'', ''bar'')]"
  have t: "mget ?m ''type'' = ''none''" by code_simp
  have 1: "(''x'', ?m) \<in> set [(''x'', ?m)]" by simp
  have 2: "mget ?m ''type'' \<in> set deviceTypes" by code_simp
  have 3: "''foo'' \<in> fst ` set ?m" by simp
  have 4: "''foo'' \<noteq> ''type''" by simp
  have 5: "''foo'' \<notin> set (allowedKeys (mget ?m ''type''))" by code_simp
  note T = containerValidDevices_invalid_key[OF 1 2 3 4 5, of exampleHost False False]
  from T have A: "\<forall>pre post. [(''x'', ?m)] = pre @ (''x'', ?m) # post \<and>
                containerValidDevices_loop exampleHost False [] pre = None \<longrightarrow>
       (\<exists>k'. k' \<in> fst ` set ?m \<and> k' \<noteq> ''type'' \<and> k' \<notin> set (allowedKeys (mget ?m ''type'')) \<and>
            containerValidDevices exampleHost (Some [(''x'', ?m)]) False False =
              Some (ErrInvalidDeviceConfigKey (mget ?m ''type'') k'))"
    by (rule conjunct2)
  have pre: "[(''x'', ?m)] = [] @ (''x'', ?m) # [] \<and>
             containerValidDevices_loop exampleHost False [] [] = None" by simp
  from A[rule_format, OF pre] obtain k' where k: "k' \<in> fst ` set ?m" "k' \<noteq> ''type''"
    and r: "containerValidDevices exampleHost (Some [(''x'', ?m)]) False False =
              Some (ErrInvalidDeviceConfigKey (mget ?m ''type'') k')"
    by (elim exE conjE)
  from k(1) have "k' = ''type'' \<or> k' = ''foo''" by simp
  with k(2) have "k' = ''foo''" by simp
  with r t have "containerValidDevices exampleHost (Some [(''x'', ?m)]) False False =
            Some (ErrInvalidDeviceConfigKey ''none'' ''foo'')" by simp
  with 1 2 5 show ?thesis by (intro conjI)
qed

section \<open>The creation flows, the catalog and the storage volumes\<close>

subsection \<open>Stateful snapshots of a stopped container\<close>

text \<open>
  Claim C5.  A call of \<open>containerCreateAsSnapshot\<close> with \<open>args.Stateful = true\<close> on a
  source container that is not running returns the error of line 878 ("The container
  isn't running"), and the world it hands back is the world it was given: no state
  directory was created (\<open>dirs\<close>), no record was reserved (\<open>catalog\<close>), and no call
  with an effect was made (\<open>trace\<close>).
\<close>

theorem containerCreateAsSnapshot_not_running: 
  assumes "Stateful args" and "\<not> IsRunning d (cName sourceContainer)"
  shows "containerCreateAsSnapshot h d args sourceContainer w = (Inl ErrNotRunning, w)"
  using assms by (simp add: containerCreateAsSnapshot_def containerCreateAsSnapshot_state_def)

subsection \<open>Restoring a backup whose pool is gone\<close>

text \<open>
  Claim C8.  Let the pool recorded in the backup not exist (\<open>storagePoolInit\<close> answers
  \<open>db.ErrNoSuchObject\<close>).  For a backup in binary format \<open>containerCreateFromBackup\<close>
  returns that error and the world is unchanged, so the unpack
  (\<open>pool.ContainerBackupLoad\<close>) was not invoked.  For any other backup, when the default
  profile has a root disk device whose pool can be initialised, the unpack is invoked
  on that pool; when the unpack succeeds, \<open>fixBackupStoragePool\<close> is invoked next and
  its outcome is the outcome of the call; when the unpack fails, its error is returned
  and nothing is rewritten.
\<close>

theorem containerCreateFromBackup_missing_pool:
  assumes "storagePoolInit d (Pool info) = Inl ErrNoSuchObject"
  shows "(HasBinaryFormat info \<longrightarrow>
            containerCreateFromBackup h d info w = (Some (Ext ErrNoSuchObject), w))
       \<and> (\<not> HasBinaryFormat info \<longrightarrow>
            (\<forall>devs k v pool.
               ProfileGet d ''default'' = Inr devs \<and> GetRootDiskDevice h devs = Inr (k, v) \<and>
               storagePoolInit d (mget v ''pool'') = Inr pool \<longrightarrow>
               (ContainerBackupLoad_fails d pool info = None \<longrightarrow>
                  containerCreateFromBackup h d info w =
                    (map_option Ext (fixBackupStoragePool_fails d info),
                     emit (EvFixBackupStoragePool (InfoName info))
                       (emit (EvContainerBackupLoad pool (InfoName info)) w))) \<and>
               (\<forall>err. ContainerBackupLoad_fails d pool info = Some err \<longrightarrow>
                  containerCreateFromBackup h d info w =
                    (Some (Ext err), emit (EvContainerBackupLoad pool (InfoName info)) w))))"
  using assms
  by (simp add: containerCreateFromBackup_def containerCreateFromBackup_unpack_def Let_def)

subsection \<open>The defaults of containerCreateInternal\<close>

lemma defaults_Inr:
  assumes "Architectures h = a # archs"
  shows "containerCreateInternal_defaults h args =
     Inr (args\<lparr>Profiles := (case Profiles args of None \<Rightarrow> Some [''default''] | Some ps \<Rightarrow> Some ps),
              Config := (if BaseImage args \<noteq> [] then Some (AList.update ''volatile.base_image'' (BaseImage args) (case Config args of None \<Rightarrow> [] | Some c \<Rightarrow> c))
                         else (case Config args of None \<Rightarrow> Some [] | Some c \<Rightarrow> Some c)),
              Devices := (case Devices args of None \<Rightarrow> Some [] | Some ds \<Rightarrow> Some ds),
              Architecture := (if Architecture args = 0 then a else Architecture args)\<rparr>)"
  using assms
  by (cases "Profiles args"; cases "Config args"; cases "Devices args")
     (simp_all add: containerCreateInternal_defaults_def Let_def)

lemma defaults_idem:
  assumes A: "Architectures h = a # archs"
      and D: "containerCreateInternal_defaults h args = Inr args'"
  shows "containerCreateInternal_defaults h args' = Inr args'"
proof -
  have p: "Profiles args' \<noteq> None" and c: "Config args' \<noteq> None" and dv: "Devices args' \<noteq> None"
    using D unfolding defaults_Inr[OF A] by (auto split: option.splits)
  have b: "BaseImage args' \<noteq> [] \<Longrightarrow>
             AList.update ''volatile.base_image'' (BaseImage args') (case Config args' of None \<Rightarrow> [] | Some c \<Rightarrow> c)
             = (case Config args' of None \<Rightarrow> [] | Some c \<Rightarrow> c)"
    using D unfolding defaults_Inr[OF A] by auto
  have ar: "Architecture args' = 0 \<Longrightarrow> a = 0"
    using D unfolding defaults_Inr[OF A] by (auto split: if_split_asm)
  obtain ps where ps: "Profiles args' = Some ps" using p by auto
  obtain cf where cf: "Config args' = Some cf" using c by auto
  obtain ds where ds: "Devices args' = Some ds" using dv by auto
  show ?thesis
  proof (cases "BaseImage args' = []")
    case True
    show ?thesis
    proof (cases "Architecture args' = 0")
      case z: True
      show ?thesis unfolding defaults_Inr[OF A] using ps cf ds True z ar[OF z] by simp
    next
      case z: False
      show ?thesis unfolding defaults_Inr[OF A] using ps cf ds True z by simp
    qed
  next
    case False
    show ?thesis
    proof (cases "Architecture args' = 0")
      case z: True
      show ?thesis unfolding defaults_Inr[OF A] using ps cf ds False z ar[OF z] b[OF False] by simp
    next
      case z: False
      show ?thesis unfolding defaults_Inr[OF A] using ps cf ds False z b[OF False] by simp
    qed
  qed
qed

lemma createInternal_idem:
  assumes A: "Architectures h = a # archs"
      and D: "containerCreateInternal_defaults h args = Inr args'"
  shows "containerCreateInternal h d args w = containerCreateInternal h d args' w"
  unfolding containerCreateInternal_def D defaults_idem[OF A D] ..

lemma validConfig_empty:
  "\<not> IsTrue h [] \<Longrightarrow> containerValidConfig h (Some []) False False = None"
  by (simp add: containerValidConfig_def mhas_def mget_def Let_def)

lemma validDevices_empty: "containerValidDevices h (Some []) False False = None"
  by (simp add: containerValidDevices_def)

text \<open>
  Claim C9.  On a host with at least one supported architecture (\<open>a\<close> is the first),
  \<open>containerCreateInternal\<close> first replaces the unset fields: a nil profile list by
  \<open>["default"]\<close>, a nil config by the empty map (to which line 971 adds
  \<open>volatile.base_image\<close> when a base image is given), a nil device map by the empty
  map, the architecture 0 by \<open>a\<close>.  The validation then runs on these args: the call
  returns the validation's error on them, and otherwise behaves as the call with the
  defaults written out.  Hence a request with all of them unset (and no base image)
  passes the validation whenever its name is valid, the architecture \<open>a\<close> has a name
  and the profile \<open>default\<close> exists: it is not rejected for what it left unset.
\<close>

theorem containerCreateInternal_defaults_first:
  assumes "Architectures h = a # archs"
  shows "\<exists>args'. containerCreateInternal_defaults h args = Inr args'
      \<and> (Profiles args = None \<longrightarrow> Profiles args' = Some [''default''])
      \<and> (Config args = None \<longrightarrow>
            Config args' = Some (if BaseImage args = [] then [] else [(''volatile.base_image'', BaseImage args)]))
      \<and> (Devices args = None \<longrightarrow> Devices args' = Some [])
      \<and> (Architecture args = 0 \<longrightarrow> Architecture args' = a)
      \<and> containerCreateInternal h d args w =
          (case containerCreateInternal_validate h d args' of
             Some err \<Rightarrow> (Inl err, w)
           | None \<Rightarrow> containerCreateInternal h d args' w)
      \<and> (Profiles args = None \<and> Config args = None \<and> Devices args = None \<and>
         Architecture args = 0 \<and> BaseImage args = [] \<and> \<not> IsTrue h [] \<and>
         (Ctype args = CTypeRegular \<longrightarrow> containerValidName h (Name args) = None) \<and>
         (\<exists>n. ArchitectureName h a = Inr n) \<and>
         (\<exists>ps. ClusterProfiles d = Inr ps \<and> ''default'' \<in> set ps)
         \<longrightarrow> containerCreateInternal_validate h d args' = None)"
proof -
  let ?a = "args\<lparr>Profiles := (case Profiles args of None \<Rightarrow> Some [''default''] | Some ps \<Rightarrow> Some ps),
              Config := (if BaseImage args \<noteq> [] then Some (AList.update ''volatile.base_image'' (BaseImage args) (case Config args of None \<Rightarrow> [] | Some c \<Rightarrow> c))
                         else (case Config args of None \<Rightarrow> Some [] | Some c \<Rightarrow> Some c)),
              Devices := (case Devices args of None \<Rightarrow> Some [] | Some ds \<Rightarrow> Some ds),
              Architecture := (if Architecture args = 0 then a else Architecture args)\<rparr>"
  have d: "containerCreateInternal_defaults h args = Inr ?a" by (rule defaults_Inr[OF assms])
  have run: "containerCreateInternal h d args w =
          (case containerCreateInternal_validate h d ?a of
             Some err \<Rightarrow> (Inl err, w)
           | None \<Rightarrow> containerCreateInternal h d ?a w)"
  proof (cases "containerCreateInternal_validate h d ?a")
    case None
    then show ?thesis using createInternal_idem[OF assms d] by simp
  next
    case (Some err)
    then show ?thesis unfolding containerCreateInternal_def d by simp
  qed
  have ok: "Profiles args = None \<and> Config args = None \<and> Devices args = None \<and>
         Architecture args = 0 \<and> BaseImage args = [] \<and> \<not> IsTrue h [] \<and>
         (Ctype args = CTypeRegular \<longrightarrow> containerValidName h (Name args) = None) \<and>
         (\<exists>n. ArchitectureName h a = Inr n) \<and>
         (\<exists>ps. ClusterProfiles d = Inr ps \<and> ''default'' \<in> set ps)
         \<longrightarrow> containerCreateInternal_validate h d ?a = None"
  proof (intro impI, elim conjE exE)
    fix n ps
    assume u: "Profiles args = None" "Config args = None" "Devices args = None"
              "Architecture args = 0" "BaseImage args = []"
       and t: "\<not> IsTrue h []"
       and nm: "Ctype args = CTypeRegular \<longrightarrow> containerValidName h (Name args) = None"
       and an: "ArchitectureName h a = Inr n"
       and cp: "ClusterProfiles d = Inr ps" and df: "''default'' \<in> set ps"
    show "containerCreateInternal_validate h d ?a = None"
      unfolding containerCreateInternal_validate_def
      using u nm an cp df assms
      by (simp add: validConfig_empty[OF t] validDevices_empty IntInSlice_def StringInSlice_def)
  qed
  show ?thesis
    apply (rule exI[of _ ?a])
    apply (intro conjI)
          apply (rule d)
         apply simp
        apply simp
       apply simp
      apply simp
     apply (rule run)
    apply (rule ok)
    done
qed

subsection \<open>The records reserved by containerCreateAsCopy\<close>
















subsection \<open>The backup record after a failure\<close>

text \<open>
  After the record of the backup is in the catalog, a failure of the storage driver or
  of the index file removes it (lines 1176 and 1183); a failure to load it (line 1170)
  returns with the record in place.
\<close>

lemma ContainerBackupCreate_None:
  assumes "ContainerBackupCreate d args w = (None, w1)"
  shows "BackupName args \<notin> set (backupNames w) \<and> backups w1 = backups w @ [args]"
proof (cases "ContainerBackupCreate_fails d args")
  case (Some e)
  with assms show ?thesis by (simp add: ContainerBackupCreate_def)
next
  case None
  show ?thesis
  proof (cases "BackupName args \<in> set (backupNames w)")
    case True
    with assms None show ?thesis by (simp add: ContainerBackupCreate_def)
  next
    case False
    with assms None show ?thesis by (auto simp add: ContainerBackupCreate_def emit_def)
  qed
qed

lemma backupNames_ContainerBackupRemove:
  "name \<notin> set (backupNames (ContainerBackupRemove name w))"
  by (auto simp add: ContainerBackupRemove_def backupNames_def emit_def)

lemma containerBackupCreate_load_error:
  assumes "ContainerBackupCreate d args w = (None, w1)"
      and "containerBackupLoadByName d (BackupName args) w1 = Inl err"
  shows "containerBackupCreate d args sourceContainer w = (Some (Ext err), w1) \<and>
         BackupName args \<in> set (backupNames w1)"
  using assms ContainerBackupCreate_None[OF assms(1)]
  by (simp add: containerBackupCreate_def backupNames_def)

lemma containerBackupCreate_storage_error:
  assumes "ContainerBackupCreate d args w = (None, w1)"
      and "containerBackupLoadByName d (BackupName args) w1 = Inr b"
      and "StorageContainerBackupCreate_fails d (bName b) (cName sourceContainer) = Some err"
  shows "fst (containerBackupCreate d args sourceContainer w) = Some (Ext err) \<and>
         BackupName args \<notin> set (backupNames (snd (containerBackupCreate d args sourceContainer w)))"
  using assms
  by (simp add: containerBackupCreate_def Let_def backupNames_ContainerBackupRemove)

lemma containerBackupCreate_index_error:
  assumes "ContainerBackupCreate d args w = (None, w1)"
      and "containerBackupLoadByName d (BackupName args) w1 = Inr b"
      and "StorageContainerBackupCreate_fails d (bName b) (cName sourceContainer) = None"
      and "createBackupIndexFile_fails d (cName sourceContainer) (bName b) = Some err"
  shows "fst (containerBackupCreate d args sourceContainer w) = Some (Ext err) \<and>
         BackupName args \<notin> set (backupNames (snd (containerBackupCreate d args sourceContainer w)))"
  using assms
  by (simp add: containerBackupCreate_def Let_def backupNames_ContainerBackupRemove)

text \<open>
  Claim C2, at a failing input.  The record of the backup \<open>c0/b1\<close> is reserved, then
  \<open>containerLXCLoad\<close> fails while the reserved record is loaded: the call returns that
  error, the record \<open>c0/b1\<close> is still in the catalog, and the only call with an effect
  was the reservation (\<open>ContainerBackupRemove\<close> was not invoked).
\<close>

theorem containerBackupCreate_load_failure:
  "containerBackupCreate
      ((exampleDrivers False [] [])\<lparr>containerLXCLoad_fails := (\<lambda>a. Some (ErrOther ''load failed''))\<rparr>)
      exampleBackupArgs (exampleContainer ''c0'' (exampleRoot [])) exampleWorld
    = (Some (Ext (ErrOther ''load failed'')),
       exampleWorld\<lparr>backups := [exampleBackupArgs], trace := [EvContainerBackupCreate ''c0/b1'']\<rparr>)"
  by code_simp

subsection \<open>The storage volume started by containerConfigureInternal\<close>

text \<open>
  When \<open>StorageStart\<close> has returned true and the quota block of lines 1082 to 1100
  fails, \<open>containerConfigureInternal\<close> returns with the volume started and without a
  call of \<open>StorageStop\<close>; when the quota block passes, the volume is stopped.
\<close>

lemma StorageStart_True:
  assumes "StorageStart d c w = (Inr True, w1)"
  shows "started w1 = started w @ [cName c] \<and> trace w1 = trace w @ [EvStorageStart (cName c) True]"
proof (cases "StorageStart_fails d (cName c)")
  case (Some e)
  with assms show ?thesis by (simp add: StorageStart_def)
next
  case None
  show ?thesis
  proof (cases "cName c \<in> set (started w)")
    case True
    with assms None show ?thesis by (simp add: StorageStart_def)
  next
    case False
    with assms None show ?thesis by (auto simp add: StorageStart_def emit_def)
  qed
qed

lemma quota_world:
  assumes "containerConfigureInternal_quota d c root w = (res, w2)"
  shows "started w2 = started w \<and>
         (\<exists>evs. trace w2 = trace w @ evs \<and> EvStorageStop (cName c) \<notin> set evs)"
proof (cases "mget root ''size'' = []")
  case True
  with assms show ?thesis by (simp add: containerConfigureInternal_quota_def)
next
  case sz: False
  show ?thesis
  proof (cases "GetStorageTypeName d (cName c) = ''lvm'' \<and> IsRunning d (cName c)")
    case True
    with assms sz have "w2 = emit (EvConfigKeySet (cName c) ''volatile.apply_quota'' (mget root ''size'')) w"
      by (simp add: containerConfigureInternal_quota_def)
    then show ?thesis by (simp add: emit_def)
  next
    case nl: False
    show ?thesis
    proof (cases "ParseByteSizeString d (mget root ''size'')")
      case (Inl e)
      with assms sz nl show ?thesis by (simp add: containerConfigureInternal_quota_def)
    next
      case (Inr n)
      with assms sz nl have "w2 = emit (EvStorageEntitySetQuota (cName c) n) w"
        by (simp add: containerConfigureInternal_quota_def)
      then show ?thesis by (simp add: emit_def)
    qed
  qed
qed

lemma containerConfigureInternal_quota_error:
  assumes g: "GetRootDiskDevice h (cExpandedDevices c) = Inr (k, rootDiskDevice)"
      and s: "StorageStart d c w = (Inr True, w1)"
      and q: "containerConfigureInternal_quota d c rootDiskDevice w1 = (Some err, w2)"
  shows "containerConfigureInternal h d c w = (Some err, w2) \<and>
         cName c \<in> set (started w2) \<and>
         (\<exists>evs. trace w2 = trace w @ EvStorageStart (cName c) True # evs \<and>
                EvStorageStop (cName c) \<notin> set evs)"
proof -
  have r: "containerConfigureInternal h d c w = (Some err, w2)"
    using g s q by (simp add: containerConfigureInternal_def)
  note S = StorageStart_True[OF s]
  note Q = quota_world[OF q]
  from Q obtain evs where evs: "trace w2 = trace w1 @ evs" "EvStorageStop (cName c) \<notin> set evs"
    by (elim conjE exE)
  have st: "cName c \<in> set (started w2)" using S Q by simp
  have tr: "\<exists>evs. trace w2 = trace w @ EvStorageStart (cName c) True # evs \<and>
                EvStorageStop (cName c) \<notin> set evs"
    using S evs by (intro exI[of _ evs]) simp
  show ?thesis by (intro conjI r st tr)
qed

lemma containerConfigureInternal_stops:
  assumes g: "GetRootDiskDevice h (cExpandedDevices c) = Inr (k, rootDiskDevice)"
      and s: "StorageStart d c w = (Inr True, w1)"
      and q: "containerConfigureInternal_quota d c rootDiskDevice w1 = (None, w2)"
  shows "cName c \<notin> set (started (snd (containerConfigureInternal h d c w)))"
  using g s q
  by (simp add: containerConfigureInternal_def writeBackupFile_def StorageStop_def emit_def)

text \<open>
  \<open>containerCreateAsSnapshot\<close> registers the deferred stop at lines 936 to 938, right
  after the start: once \<open>StorageStart\<close> has returned true there, the volume is stopped
  on every return.
\<close>

lemma started_StorageStop: "cName c \<notin> set (started (StorageStop c w))"
  by (simp add: StorageStop_def emit_def)

lemma containerCreateAsSnapshot_stops:
  assumes st: "(if Stateful args then containerCreateAsSnapshot_state h d sourceContainer w
                else (None, w)) = (None, w1)"
      and ci: "containerCreateInternal h d args w1 = (Inr c, w2)"
      and sc: "StorageContainerSnapshotCreate d (cName c) (cName sourceContainer) = None"
      and ss: "StorageStart d c (emit (EvStorageContainerSnapshotCreate (cName c) (cName sourceContainer)) w2)
                 = (Inr True, w4)"
  shows "cName c \<notin> set (started (snd (containerCreateAsSnapshot h d args sourceContainer w)))"
proof -
  obtain res w5 where wb: "writeBackupFile d sourceContainer w4 = (res, w5)"
    by (cases "writeBackupFile d sourceContainer w4")
  show ?thesis
  proof (cases res)
    case None
    show ?thesis
      unfolding containerCreateAsSnapshot_def st
      using ci sc ss wb None by (simp add: Let_def started_StorageStop)
  next
    case (Some e)
    show ?thesis
      unfolding containerCreateAsSnapshot_def st
      using ci sc ss wb Some by (simp add: Let_def started_StorageStop)
  qed
qed

text \<open>
  Claim C4, at a failing input.  The root disk device of the container \<open>c1\<close> carries
  the size \<open>abc\<close>, which \<open>shared.ParseByteSizeString\<close> refuses.  \<open>StorageStart\<close>
  returns true, line 1092 returns the parse error, and the volume of \<open>c1\<close> is left
  started: the only call with an effect was \<open>StorageStart\<close>, \<open>StorageStop\<close> was not
  invoked.
\<close>

theorem containerConfigureInternal_storage_left_started:
  "containerConfigureInternal exampleHost (exampleDrivers False [] [])
      (exampleContainer ''c1'' (exampleRoot ''abc'')) exampleWorld
    = (Some (Ext (ErrOther ''Invalid value'')),
       exampleWorld\<lparr>started := [''c1''], trace := [EvStorageStart ''c1'' True]\<rparr>)"
  by code_simp

section \<open>Concrete instances of the flows\<close>

theorem containerCreateAsSnapshot_not_running_witness:
  "containerCreateAsSnapshot exampleHost (exampleDrivers False [] []) (exampleArgs\<lparr>Stateful := True\<rparr>)
      (exampleContainer ''c0'' (exampleRoot [])) exampleWorld = (Inl ErrNotRunning, exampleWorld)"
  using containerCreateAsSnapshot_not_running [of "exampleArgs\<lparr>Stateful := True\<rparr>" "exampleDrivers False [] []"
               "exampleContainer ''c0'' (exampleRoot [])" exampleHost exampleWorld]
  by (simp add: exampleDrivers_def)


theorem containerCreateFromBackup_missing_pool_witness:
  "containerCreateFromBackup exampleHost (exampleDrivers False [] []) (exampleInfo True) exampleWorld
     = (Some (Ext ErrNoSuchObject), exampleWorld)
   \<and> containerCreateFromBackup exampleHost (exampleDrivers False [] []) (exampleInfo False) exampleWorld
     = (None, emit (EvFixBackupStoragePool ''b1'') (emit (EvContainerBackupLoad ''default'' ''b1'') exampleWorld))"
proof -
  let ?D = "exampleDrivers False [] []"
  have p: "storagePoolInit ?D (Pool (exampleInfo b)) = Inl ErrNoSuchObject" for b
    by (simp add: exampleDrivers_def exampleInfo_def)
  have b: "HasBinaryFormat (exampleInfo True)" "\<not> HasBinaryFormat (exampleInfo False)"
    by (simp_all add: exampleInfo_def)
  have g: "ProfileGet ?D ''default'' = Inr (exampleRoot [])" by (simp add: exampleDrivers_def)
  have rt: "GetRootDiskDevice exampleHost (exampleRoot []) =
              Inr (''root'', [(''type'', ''disk''), (''path'', ''/''), (''pool'', ''default'')])"
    by code_simp
  have pl: "storagePoolInit ?D (mget [(''type'', ''disk''), (''path'', ''/''), (''pool'', ''default'')] ''pool'') = Inr ''default''"
    by code_simp
  have ld: "ContainerBackupLoad_fails ?D ''default'' (exampleInfo False) = None"
    by (simp add: exampleDrivers_def)
  have fx: "fixBackupStoragePool_fails ?D (exampleInfo False) = None"
    by (simp add: exampleDrivers_def)
  have nm: "InfoName (exampleInfo False) = ''b1''" by (simp add: exampleInfo_def)
  note T1 = containerCreateFromBackup_missing_pool[OF p[of True], of exampleHost exampleWorld, THEN conjunct1, THEN mp, OF b(1)]
  note T2 = containerCreateFromBackup_missing_pool[OF p[of False], of exampleHost exampleWorld, THEN conjunct2, THEN mp, OF b(2),
               THEN spec, THEN spec, THEN spec, THEN spec, THEN mp, OF conjI[OF g conjI[OF rt pl]],
               THEN conjunct1, THEN mp, OF ld]
  show ?thesis by (intro conjI T1 T2[unfolded fx nm option.map])
qed

theorem containerCreateInternal_defaults_first_witness:
  "containerCreateInternal_defaults exampleHost exampleArgs =
      Inr (exampleArgs\<lparr>Profiles := Some [''default''], Config := Some [], Devices := Some [],
                       Architecture := ARCH_64BIT_INTEL_X86\<rparr>)
   \<and> containerCreateInternal_validate exampleHost (exampleDrivers False [] [])
        (exampleArgs\<lparr>Profiles := Some [''default''], Config := Some [], Devices := Some [],
                       Architecture := ARCH_64BIT_INTEL_X86\<rparr>) = None"
proof -
  let ?D = "exampleDrivers False [] []"
  have A: "Architectures exampleHost = ARCH_64BIT_INTEL_X86 # []" by (simp add: exampleHost_def)
  from containerCreateInternal_defaults_first[OF A, of exampleArgs ?D exampleWorld] obtain args' where
        d: "containerCreateInternal_defaults exampleHost exampleArgs = Inr args'"
    and p: "Profiles exampleArgs = None \<longrightarrow> Profiles args' = Some [''default'']"
    and v: "Profiles exampleArgs = None \<and> Config exampleArgs = None \<and> Devices exampleArgs = None \<and>
         Architecture exampleArgs = 0 \<and> BaseImage exampleArgs = [] \<and> \<not> IsTrue exampleHost [] \<and>
         (Ctype exampleArgs = CTypeRegular \<longrightarrow> containerValidName exampleHost (Name exampleArgs) = None) \<and>
         (\<exists>n. ArchitectureName exampleHost ARCH_64BIT_INTEL_X86 = Inr n) \<and>
         (\<exists>ps. ClusterProfiles ?D = Inr ps \<and> ''default'' \<in> set ps)
         \<longrightarrow> containerCreateInternal_validate exampleHost ?D args' = None"
    by (elim exE conjE)
  have e: "containerCreateInternal_defaults exampleHost exampleArgs =
      Inr (exampleArgs\<lparr>Profiles := Some [''default''], Config := Some [], Devices := Some [],
                       Architecture := ARCH_64BIT_INTEL_X86\<rparr>)"
    by code_simp
  have u: "Profiles exampleArgs = None" "Config exampleArgs = None" "Devices exampleArgs = None"
          "Architecture exampleArgs = 0" "BaseImage exampleArgs = []"
    by (simp_all add: exampleArgs_def)
  have t: "\<not> IsTrue exampleHost []" by code_simp
  have n: "Ctype exampleArgs = CTypeRegular \<longrightarrow> containerValidName exampleHost (Name exampleArgs) = None"
    by code_simp
  have an: "\<exists>n. ArchitectureName exampleHost ARCH_64BIT_INTEL_X86 = Inr n"
    by (simp add: exampleHost_def)
  have cp: "\<exists>ps. ClusterProfiles ?D = Inr ps \<and> ''default'' \<in> set ps"
    by (simp add: exampleDrivers_def)
  have "containerCreateInternal_validate exampleHost ?D args' = None"
    by (rule v[THEN mp]) (intro conjI u t n an cp)
  moreover have "args' = exampleArgs\<lparr>Profiles := Some [''default''], Config := Some [], Devices := Some [],
                       Architecture := ARCH_64BIT_INTEL_X86\<rparr>"
    using d e by simp
  ultimately show ?thesis using e by simp
qed

end
